theory Spec2Isabelle
  imports Main "HOL-Library.Word" "HOL-Library.Log_Nat"
begin

unbundle bit_operations_syntax

section \<open>The X720 fuel-gauge driver of \<^verbatim>\<open>custom_components/x720/sensor.py\<close>\<close>

text \<open>
  The driver is Python: exceptions are modelled as the left summand of a result, the
  attributes of the objects as records that are passed through every call and returned
  also when the call raises (an exception does not undo the assignments made before it),
  and the I2C bus, the clock and the logger as a trace of events. The answers of the
  bus are a parameter: a function of the events so far.
\<close>

subsection \<open>Python values, exceptions, events\<close>

text \<open>
  The attributes of the data objects hold \<^verbatim>\<open>None\<close>, \<^verbatim>\<open>False\<close> or a float.
  A finite float is the rational number it denotes.
\<close>

datatype pyval = PyNone | PyBool bool | PyFloat rat

text \<open>Truth value testing, as \<^verbatim>\<open>if not x\<close> does it.\<close>

fun truthy :: "pyval \<Rightarrow> bool" where
  "truthy PyNone = False"
| "truthy (PyBool b) = b"
| "truthy (PyFloat x) = (x \<noteq> 0)"

text \<open>
  The exception classes \<^verbatim>\<open>except (RuntimeError, IOError)\<close> tells apart:
  \<open>IOError\<close> is \<^verbatim>\<open>OSError\<close> with its subclasses, which is what the smbus module
  raises on a bus fault; \<open>OtherError\<close> is any class the clause does not catch.
\<close>

datatype exn = RuntimeError | IOError | OtherError

text \<open>
  What the driver does to its surroundings: opening bus \<open>n\<close> (\<^verbatim>\<open>SMBus(n)\<close>), reading
  a word (\<^verbatim>\<open>read_word_data(addr, reg)\<close> on a bus), sleeping for a number of seconds,
  and logging an error (the format string).
\<close>

datatype event =
    SMBusOpen int
  | ReadWordData int int int
  | Sleep rat
  | LogError string

text \<open>
  The smbus module is not part of the repository. It is a parameter: whether opening a
  bus raises, and the answer of a word read (an exception or an unsigned 16-bit word), both
  as functions of the events that happened before. An open bus is named by its number.
\<close>

record env =
  SMBus :: "event list \<Rightarrow> int \<Rightarrow> exn option"
  read_word_data :: "event list \<Rightarrow> int \<Rightarrow> int \<Rightarrow> int \<Rightarrow> exn + 16 word"

definition SMBus_open :: "env \<Rightarrow> int \<Rightarrow> event list \<Rightarrow> (exn + int) \<times> event list" where
  "SMBus_open env n t =
     (case SMBus env t n of
        Some e \<Rightarrow> (Inl e, t @ [SMBusOpen n])
      | None \<Rightarrow> (Inr n, t @ [SMBusOpen n]))"

subsection \<open>Floats\<close>

text \<open>
  Python's float is IEEE 754 binary64 and every operation rounds the exact result to the
  nearest float, ties to even. \<open>fl64\<close> is that rounding on the finite range, subnormal
  numbers included; the values of this driver are below \<open>2 ^ 17\<close>, so no operation
  overflows, and every divisor is a non-zero literal.
\<close>

definition pow2 :: "int \<Rightarrow> rat" where
  "pow2 e = (if 0 \<le> e then 2 ^ nat e else 1 / 2 ^ nat (- e))"

text \<open>The exponent of a positive number: the \<open>e\<close> with \<open>2 ^ e \<le> x < 2 ^ (e + 1)\<close>.\<close>

definition ilog2 :: "rat \<Rightarrow> int" where
  "ilog2 x = (if 1 \<le> x then bitlen \<lfloor>x\<rfloor> - 1 else - bitlen (\<lceil>1 / x\<rceil> - 1))"

definition round_half_even :: "rat \<Rightarrow> int" where
  "round_half_even x =
     (let f = \<lfloor>x\<rfloor>; d = x - of_int f
      in if d < 1 / 2 then f
         else if 1 / 2 < d then f + 1
         else if even f then f else f + 1)"

definition fl64 :: "rat \<Rightarrow> rat" where
  "fl64 x =
     (if x = 0 then 0
      else let ulp = pow2 (max (ilog2 \<bar>x\<bar>) (- 1022) - 52)
           in of_int (round_half_even (x / ulp)) * ulp)"

definition py_float :: "int \<Rightarrow> rat" where
  "py_float n = fl64 (of_int n)"

definition py_mul :: "rat \<Rightarrow> rat \<Rightarrow> rat" where
  "py_mul a b = fl64 (a * b)"

definition py_truediv :: "rat \<Rightarrow> rat \<Rightarrow> rat" where
  "py_truediv a b = fl64 (a / b)"

subsection \<open>The byte swap\<close>

text \<open>
  \<^verbatim>\<open>struct.pack(">H", read)\<close> writes the word high byte first,
  \<^verbatim>\<open>struct.unpack("<H", ...)[0]\<close> reads two bytes low byte first.
\<close>

definition pack_be_H :: "16 word \<Rightarrow> 8 word list" where
  "pack_be_H w = [ucast (drop_bit 8 w), ucast w]"

definition unpack_le_H :: "8 word list \<Rightarrow> 16 word" where
  "unpack_le_H bs =
     (case bs of [b0, b1] \<Rightarrow> ucast b0 OR push_bit 8 (ucast b1) | _ \<Rightarrow> 0)"

definition swapped16 :: "16 word \<Rightarrow> 16 word" where
  "swapped16 read = unpack_le_H (pack_be_H read)"

subsection \<open>The device object\<close>

record FieldData =
  status :: pyval
  voltage :: pyval
  capacity :: pyval

definition FieldData_init :: FieldData where
  "FieldData_init = \<lparr>status = PyNone, voltage = PyBool False, capacity = PyNone\<rparr>"

record X720 =
  data :: FieldData
  i2c_addr :: int
  i2c :: int

definition DEFAULT_I2C_ADDRESS :: int where
  "DEFAULT_I2C_ADDRESS = 0x36"

definition DEFAULT_I2C_BUS :: int where
  "DEFAULT_I2C_BUS = 1"

text \<open>The two scalings: \<^verbatim>\<open>swapped * 1.25 /1000/16\<close> and \<^verbatim>\<open>swapped/256\<close>.\<close>

definition scale_voltage :: "int \<Rightarrow> rat" where
  "scale_voltage swapped =
     py_truediv (py_truediv (py_mul (py_float swapped) (5 / 4)) (py_float 1000)) (py_float 16)"

definition scale_capacity :: "int \<Rightarrow> rat" where
  "scale_capacity swapped = py_truediv (py_float swapped) (py_float 256)"

definition voltage_of :: "16 word \<Rightarrow> rat" where
  "voltage_of read = scale_voltage (uint (swapped16 read))"

definition capacity_of :: "16 word \<Rightarrow> rat" where
  "capacity_of read = scale_capacity (uint (swapped16 read))"

text \<open>
  \<^verbatim>\<open>X720.get_sensor_data\<close>: two word reads, each converted and stored at once. The
  result is the outcome, the object as the call leaves it, and the trace.
\<close>

definition get_sensor_data ::
  "env \<Rightarrow> X720 \<Rightarrow> event list \<Rightarrow> (exn + bool) \<times> X720 \<times> event list" where
  "get_sensor_data env self t =
     (let t1 = t @ [ReadWordData (i2c self) (i2c_addr self) 2] in
      case read_word_data env t (i2c self) (i2c_addr self) 2 of
        Inl e \<Rightarrow> (Inl e, self, t1)
      | Inr read \<Rightarrow>
          let self1 = self\<lparr>data := (data self)\<lparr>FieldData.voltage := PyFloat (voltage_of read)\<rparr>\<rparr>;
              t2 = t1 @ [ReadWordData (i2c self) (i2c_addr self) 4]
          in (case read_word_data env t1 (i2c self) (i2c_addr self) 4 of
                Inl e \<Rightarrow> (Inl e, self1, t2)
              | Inr read' \<Rightarrow>
                  (Inr True,
                   self1\<lparr>data := (data self1)\<lparr>FieldData.capacity := PyFloat (capacity_of read')\<rparr>\<rparr>,
                   t2)))"

text \<open>
  \<^verbatim>\<open>X720.__init__\<close>: stores the address and the bus, opens bus 1 when no bus is given,
  and runs one read cycle. When it raises there is no object.
\<close>

definition X720_init ::
  "env \<Rightarrow> int \<Rightarrow> int option \<Rightarrow> event list \<Rightarrow> (exn + X720) \<times> event list" where
  "X720_init env addr i2c_device t =
     (case (case i2c_device of
              Some b \<Rightarrow> (Inr b, t)
            | None \<Rightarrow> SMBus_open env 1 t) of
        (Inl e, t1) \<Rightarrow> (Inl e, t1)
      | (Inr b, t1) \<Rightarrow>
          (case get_sensor_data env \<lparr>data = FieldData_init, i2c_addr = addr, i2c = b\<rparr> t1 of
             (Inl e, _, t2) \<Rightarrow> (Inl e, t2)
           | (Inr _, self, t2) \<Rightarrow> (Inr self, t2)))"

subsection \<open>The handler and its cache\<close>

record SensorData =
  voltage :: pyval
  capacity :: pyval

definition SensorData_init :: SensorData where
  "SensorData_init = \<lparr>voltage = PyNone, capacity = PyNone\<rparr>"

record X720Handler =
  sensor_data :: SensorData
  sensor :: X720

text \<open>
  \<^verbatim>\<open>X720Handler.update\<close>: with \<open>first_read\<close> one read cycle whose return value is
  dropped, then a read cycle whose truth value decides whether the two fields are copied.
\<close>

definition update ::
  "env \<Rightarrow> bool \<Rightarrow> X720Handler \<Rightarrow> event list \<Rightarrow> (exn + unit) \<times> X720Handler \<times> event list" where
  "update env first_read self t =
     (case (if first_read
            then (case get_sensor_data env (sensor self) t of
                    (Inl e, s, t1) \<Rightarrow> (Inl e, self\<lparr>sensor := s\<rparr>, t1)
                  | (Inr _, s, t1) \<Rightarrow> (Inr (), self\<lparr>sensor := s\<rparr>, t1))
            else (Inr (), self, t)) of
        (Inl e, self1, t1) \<Rightarrow> (Inl e, self1, t1)
      | (Inr _, self1, t1) \<Rightarrow>
          (case get_sensor_data env (sensor self1) t1 of
             (Inl e, s, t2) \<Rightarrow> (Inl e, self1\<lparr>sensor := s\<rparr>, t2)
           | (Inr ok, s, t2) \<Rightarrow>
               if ok
               then (Inr (),
                     self1\<lparr>sensor := s,
                           sensor_data := (sensor_data self1)
                             \<lparr>SensorData.voltage := FieldData.voltage (data s),
                              SensorData.capacity := FieldData.capacity (data s)\<rparr>\<rparr>,
                     t2)
               else (Inr (), self1\<lparr>sensor := s\<rparr>, t2)))"

text \<open>\<^verbatim>\<open>X720Handler.__init__\<close>: an empty cache, then \<^verbatim>\<open>update(first_read=True)\<close>.\<close>

definition X720Handler_init ::
  "env \<Rightarrow> X720 \<Rightarrow> event list \<Rightarrow> (exn + X720Handler) \<times> event list" where
  "X720Handler_init env sensor' t =
     (case update env True \<lparr>sensor_data = SensorData_init, sensor = sensor'\<rparr> t of
        (Inl e, _, t1) \<Rightarrow> (Inl e, t1)
      | (Inr _, self, t1) \<Rightarrow> (Inr self, t1))"

subsection \<open>Set-up\<close>

record config =
  CONF_I2C_ADDRESS :: int
  CONF_I2C_BUS :: int

text \<open>The \<^verbatim>\<open>except (RuntimeError, IOError)\<close> clause of \<^verbatim>\<open>_setup_x720\<close>.\<close>

definition not_detected ::
  "exn \<Rightarrow> event list \<Rightarrow> (exn + X720Handler option) \<times> event list" where
  "not_detected e t =
     (if e = RuntimeError \<or> e = IOError
      then (Inr None, t @ [LogError ''X720 sensor not detected at 0x%02x''])
      else (Inl e, t))"

text \<open>
  \<^verbatim>\<open>_setup_x720\<close>: the bus and the device object are made inside the \<^verbatim>\<open>try\<close>, the
  handler after it; then the sleep and the test of the cached voltage.
\<close>

definition setup_x720 ::
  "env \<Rightarrow> config \<Rightarrow> event list \<Rightarrow> (exn + X720Handler option) \<times> event list" where
  "setup_x720 env conf t =
     (let i2c_address = CONF_I2C_ADDRESS conf in
      case SMBus_open env (CONF_I2C_BUS conf) t of
        (Inl e, t1) \<Rightarrow> not_detected e t1
      | (Inr bus, t1) \<Rightarrow>
          (case X720_init env i2c_address (Some bus) t1 of
             (Inl e, t2) \<Rightarrow> not_detected e t2
           | (Inr sensor', t2) \<Rightarrow>
               (case X720Handler_init env sensor' t2 of
                  (Inl e, t3) \<Rightarrow> (Inl e, t3)
                | (Inr sensor_handler, t3) \<Rightarrow>
                    let t4 = t3 @ [Sleep (1 / 2)] in
                    if \<not> truthy (SensorData.voltage (sensor_data sensor_handler))
                    then (Inr None, t4 @ [LogError ''X720 sensor failed to Initialize''])
                    else (Inr (Some sensor_handler), t4))))"

subsection \<open>Polling\<close>

text \<open>
  After set-up the host calls \<^verbatim>\<open>update()\<close> on every poll and goes on polling when a
  call raises; the handler and the trace are what a call leaves behind. The list gives
  \<open>first_read\<close> for each call.
\<close>

fun polls :: "env \<Rightarrow> bool list \<Rightarrow> X720Handler \<times> event list \<Rightarrow> X720Handler \<times> event list" where
  "polls env [] ht = ht"
| "polls env (first_read # frs) (h, t) =
     (case update env first_read h t of (_, h', t') \<Rightarrow> polls env frs (h', t'))"

subsection \<open>Properties of caches and traces\<close>

text \<open>The cache holds a reading: both fields are floats.\<close>

fun is_float :: "pyval \<Rightarrow> bool" where
  "is_float (PyFloat x) = True"
| "is_float v = False"

definition is_reading :: "SensorData \<Rightarrow> bool" where
  "is_reading sd = (is_float (SensorData.voltage sd) \<and> is_float (SensorData.capacity sd))"

definition is_empty :: "SensorData \<Rightarrow> bool" where
  "is_empty sd = (SensorData.voltage sd = PyNone \<and> SensorData.capacity sd = PyNone)"

text \<open>
  The cache holds the two values of one read cycle of the trace: somewhere in the trace
  the voltage register and then the capacity register were read without a fault, one
  right after the other, and the cache holds exactly the conversions of the two answers.
\<close>

definition cycle_at :: "env \<Rightarrow> X720 \<Rightarrow> event list \<Rightarrow> nat \<Rightarrow> SensorData \<Rightarrow> bool" where
  "cycle_at env s t n sd =
     (let t0 = take n t;
          r2 = ReadWordData (i2c s) (i2c_addr s) 2;
          r4 = ReadWordData (i2c s) (i2c_addr s) 4
      in take 2 (drop n t) = [r2, r4] \<and>
         (case read_word_data env t0 (i2c s) (i2c_addr s) 2 of
            Inl e \<Rightarrow> False
          | Inr w2 \<Rightarrow>
              (case read_word_data env (t0 @ [r2]) (i2c s) (i2c_addr s) 4 of
                 Inl e \<Rightarrow> False
               | Inr w4 \<Rightarrow>
                   sd = \<lparr>voltage = PyFloat (voltage_of w2),
                         capacity = PyFloat (capacity_of w4)\<rparr>)))"

definition from_one_cycle :: "env \<Rightarrow> X720Handler \<Rightarrow> event list \<Rightarrow> bool" where
  "from_one_cycle env h t =
     list_ex (\<lambda>n. cycle_at env (sensor h) t n (sensor_data h)) [0..<length t]"

text \<open>
  A wait of at least \<open>d\<close> seconds lies between two word reads of the trace: the trace is
  some events with a read among them, a sleep of at least \<open>d\<close>, and again some events
  with a read among them.
\<close>

fun is_read :: "event \<Rightarrow> bool" where
  "is_read (ReadWordData b a r) = True"
| "is_read ev = False"

fun is_sleep_of :: "rat \<Rightarrow> event \<Rightarrow> bool" where
  "is_sleep_of d (Sleep d') = (d \<le> d')"
| "is_sleep_of d ev = False"

definition delay_between_reads :: "rat \<Rightarrow> event list \<Rightarrow> bool" where
  "delay_between_reads d t =
     list_ex (\<lambda>n. is_sleep_of d (t ! n) \<and> list_ex is_read (take n t)
                  \<and> list_ex is_read (drop (Suc n) t)) [0..<length t]"

subsection \<open>Buses to run the driver on\<close>

text \<open>A bus that opens and answers every read: \<open>w2\<close> from register 2, \<open>w4\<close> from any other.\<close>

definition steady_bus :: "16 word \<Rightarrow> 16 word \<Rightarrow> env" where
  "steady_bus w2 w4 =
     \<lparr>SMBus = (\<lambda>t n. None),
      read_word_data = (\<lambda>t b a r. if r = 2 then Inr w2 else Inr w4)\<rparr>"

text \<open>
  A bus that answers like \<open>steady_bus\<close> as long as fewer than \<open>n\<close> events have happened,
  and faults with \<^verbatim>\<open>IOError\<close> from then on.
\<close>

definition failing_bus :: "nat \<Rightarrow> 16 word \<Rightarrow> 16 word \<Rightarrow> env" where
  "failing_bus n w2 w4 =
     \<lparr>SMBus = (\<lambda>t n. None),
      read_word_data =
        (\<lambda>t b a r. if n \<le> length t then Inl IOError else if r = 2 then Inr w2 else Inr w4)\<rparr>"

definition default_config :: config where
  "default_config = \<lparr>CONF_I2C_ADDRESS = DEFAULT_I2C_ADDRESS, CONF_I2C_BUS = DEFAULT_I2C_BUS\<rparr>"

text \<open>A handler as set-up leaves it on a steady bus: cache and device hold one reading.\<close>

definition ready_handler :: "16 word \<Rightarrow> 16 word \<Rightarrow> X720Handler" where
  "ready_handler w2 w4 =
     \<lparr>sensor_data = \<lparr>voltage = PyFloat (voltage_of w2), capacity = PyFloat (capacity_of w4)\<rparr>,
      sensor = \<lparr>data = \<lparr>status = PyNone, voltage = PyFloat (voltage_of w2),
                        capacity = PyFloat (capacity_of w4)\<rparr>,
                i2c_addr = DEFAULT_I2C_ADDRESS, i2c = DEFAULT_I2C_BUS\<rparr>\<rparr>"

section \<open>The byte swap\<close>

lemma swapped16_bits: "swapped16 w = drop_bit 8 w OR push_bit 8 w"
  unfolding swapped16_def pack_be_H_def unpack_le_H_def
  by (simp, rule bit_word_eqI) (auto simp: bit_simps not_less dest: bit_imp_le_length)

text \<open>In arithmetic: the low byte becomes the high byte and the high byte the low byte.\<close>

lemma swapped16_uint: "uint (swapped16 w) = uint w mod 256 * 256 + uint w div 256"
proof -
  have d: "drop_bit 8 w AND push_bit 8 w = 0"
    by (rule bit_word_eqI) (auto simp: bit_simps not_less dest: bit_imp_le_length)
  have s: "swapped16 w = w div 256 + w * 256"
    unfolding swapped16_bits using disjunctive_add_eq_or [OF d]
    by (simp add: drop_bit_eq_div push_bit_eq_mult)
  have b: "uint w < 65536"
    using uint_lt2p [of w] by simp
  have m: "uint (w * 256) = uint w mod 256 * 256"
  proof -
    have "uint w * 256 mod (256 * 256) = uint w mod 256 * 256"
      by (rule mod_mult_mult2)
    then show ?thesis by (simp add: uint_word_ariths)
  qed
  have dv: "uint (w div 256) = uint w div 256"
    by (simp add: uint_div)
  have "uint (w div 256 + w * 256) = (uint (w div 256) + uint (w * 256)) mod 65536"
    by (simp add: uint_word_ariths)
  also have "\<dots> = (uint w div 256 + uint w mod 256 * 256) mod 65536"
    by (simp only: m dv)
  also have "\<dots> = uint w div 256 + uint w mod 256 * 256"
  proof -
    have "0 \<le> uint w div 256" "uint w div 256 < 256" "0 \<le> uint w mod 256" "uint w mod 256 < 256"
      using b by (simp_all add: pos_imp_zdiv_nonneg_iff)
    then show ?thesis by (intro mod_pos_pos_trivial) simp_all
  qed
  finally show ?thesis by (simp add: s)
qed

text \<open>
  C6: the 16-bit byte swap of the register conversion, applied twice, gives back the word
  it started from, for every 16-bit word.
\<close>

theorem swapped16_involution: "swapped16 (swapped16 w) = w"
  unfolding swapped16_bits
proof (rule bit_word_eqI)
  fix n
  assume "n < LENGTH(16)"
  then show "bit (drop_bit 8 (drop_bit 8 w OR push_bit 8 w)
                  OR push_bit 8 (drop_bit 8 w OR push_bit 8 w)) n = bit w n"
    by (cases "n < 8") (auto simp: bit_simps not_less dest: bit_imp_le_length)
qed

section \<open>Float rounding\<close>

lemma pow2_powi: "pow2 e = 2 powi e"
  by (simp add: pow2_def power_int_def field_simps)

lemma pow2_pos: "0 < pow2 e"
  by (simp add: pow2_def)

lemma pow2_add: "pow2 (a + b) = pow2 a * pow2 b"
  by (simp add: pow2_powi power_int_add)

lemma pow2_mono: "a \<le> b \<Longrightarrow> pow2 a \<le> pow2 b"
  by (simp add: pow2_powi power_int_increasing)

lemma bitlen_pos: "0 < k \<Longrightarrow> 0 < bitlen k"
  using bitlen_nonneg [of k] bitlen_eq_zero_iff [of k] by linarith

lemma rat_of_int_pow_le: "2 ^ n \<le> (m :: int) \<Longrightarrow> (2 :: rat) ^ n \<le> of_int m"
proof -
  assume "2 ^ n \<le> m"
  then have "(of_int (2 ^ n) :: rat) \<le> of_int m" by (rule iffD2 [OF of_int_le_iff])
  then show ?thesis by simp
qed

lemma rat_of_int_le_pow: "(m :: int) \<le> 2 ^ n \<Longrightarrow> of_int m \<le> (2 :: rat) ^ n"
proof -
  assume "m \<le> 2 ^ n"
  then have "(of_int m :: rat) \<le> of_int (2 ^ n)" by (rule iffD2 [OF of_int_le_iff])
  then show ?thesis by simp
qed

lemma ilog2_lower: assumes "0 < x" shows "pow2 (ilog2 x) \<le> x"
proof (cases "1 \<le> x")
  case True
  then have f: "0 < \<lfloor>x\<rfloor>" by simp
  from bitlen_bounds [OF f] have "2 ^ nat (bitlen \<lfloor>x\<rfloor> - 1) \<le> \<lfloor>x\<rfloor>" by simp
  from rat_of_int_pow_le [OF this] have "2 ^ nat (bitlen \<lfloor>x\<rfloor> - 1) \<le> x"
    using of_int_floor_le [of x] by linarith
  moreover have "0 \<le> bitlen \<lfloor>x\<rfloor> - 1"
    using bitlen_pos [OF f] by simp
  ultimately show ?thesis using True by (simp add: ilog2_def pow2_def)
next
  case False
  define m where "m = \<lceil>1 / x\<rceil> - 1"
  from False assms have "1 < 1 / x" by (simp add: field_simps)
  then have m: "0 < m" unfolding m_def by linarith
  from bitlen_bounds [OF m] have "m < 2 ^ nat (bitlen m)" by simp
  then have "\<lceil>1 / x\<rceil> \<le> 2 ^ nat (bitlen m)" by (simp add: m_def)
  from rat_of_int_le_pow [OF this] have "1 / x \<le> 2 ^ nat (bitlen m)"
    using le_of_int_ceiling [of "1 / x"] by linarith
  then have "1 / 2 ^ nat (bitlen m) \<le> x"
    using assms by (simp add: field_simps)
  moreover have "0 < bitlen m" using m by (rule bitlen_pos)
  ultimately show ?thesis using False
    by (simp add: ilog2_def pow2_def m_def)
qed

lemma ilog2_upper: assumes "0 < x" shows "x < pow2 (ilog2 x + 1)"
proof (cases "1 \<le> x")
  case True
  then have f: "0 < \<lfloor>x\<rfloor>" by simp
  from bitlen_bounds [OF f] have "\<lfloor>x\<rfloor> + 1 \<le> 2 ^ nat (bitlen \<lfloor>x\<rfloor>)" by simp
  from rat_of_int_le_pow [OF this] have "x < 2 ^ nat (bitlen \<lfloor>x\<rfloor>)"
    by linarith
  then show ?thesis using True bitlen_pos [OF f] by (simp add: ilog2_def pow2_def)
next
  case False
  define m where "m = \<lceil>1 / x\<rceil> - 1"
  from False assms have "1 < 1 / x" by (simp add: field_simps)
  then have m: "0 < m" unfolding m_def by linarith
  have k: "0 < bitlen m" using m by (rule bitlen_pos)
  from bitlen_bounds [OF m] have "2 ^ nat (bitlen m - 1) \<le> m" by simp
  from rat_of_int_pow_le [OF this] have "2 ^ nat (bitlen m - 1) < 1 / x"
    unfolding m_def by linarith
  then have "x < 1 / 2 ^ nat (bitlen m - 1)"
    using assms by (simp add: field_simps)
  moreover have "pow2 (- bitlen m + 1) = 1 / 2 ^ nat (bitlen m - 1)"
    using k by (auto simp: pow2_def)
  ultimately show ?thesis using False
    by (simp add: ilog2_def m_def)
qed

text \<open>Rounding does not go below a power of two in the normal range.\<close>

lemma round_half_even_ge: "of_int n \<le> x \<Longrightarrow> n \<le> round_half_even x"
proof -
  assume "of_int n \<le> x"
  then have "n \<le> \<lfloor>x\<rfloor>" by (simp add: le_floor_iff)
  moreover have "\<lfloor>x\<rfloor> \<le> round_half_even x"
    by (simp add: round_half_even_def Let_def)
  ultimately show ?thesis by simp
qed

lemma fl64_ge_pow2:
  assumes "pow2 k \<le> x" and "- 1022 \<le> k"
  shows "pow2 k \<le> fl64 x"
proof -
  have x: "0 < x" using pow2_pos [of k] assms(1) by linarith
  define e where "e = ilog2 x"
  have ke: "k \<le> e"
  proof (rule ccontr)
    assume "\<not> k \<le> e"
    then have "e + 1 \<le> k" by simp
    from pow2_mono [OF this] ilog2_upper [OF x] assms(1) show False
      by (simp add: e_def)
  qed
  then have m: "max e (- 1022) = e" using assms(2) by simp
  define ulp where "ulp = pow2 (e - 52)"
  have up: "0 < ulp" by (simp add: ulp_def pow2_pos)
  have pe: "pow2 e = 2 ^ 52 * ulp"
    using pow2_add [of 52 "e - 52"] by (simp add: ulp_def pow2_def)
  have "pow2 e \<le> x" using ilog2_lower [OF x] by (simp add: e_def)
  then have "2 ^ 52 \<le> x / ulp" using up by (simp add: pe field_simps)
  then have "of_int (2 ^ 52) \<le> x / ulp" by simp
  from round_half_even_ge [OF this] have "(2 :: int) ^ 52 \<le> round_half_even (x / ulp)" .
  then have "(of_int (2 ^ 52) :: rat) \<le> of_int (round_half_even (x / ulp))"
    by (rule iffD2 [OF of_int_le_iff])
  then have "2 ^ 52 * ulp \<le> of_int (round_half_even (x / ulp)) * ulp"
    using up by simp
  then have "pow2 e \<le> fl64 x"
    using x by (simp add: fl64_def m e_def [symmetric] ulp_def [symmetric] pe Let_def)
  with pow2_mono [OF ke] show ?thesis by linarith
qed


text \<open>The voltage is the float zero for the word zero only.\<close>

lemma voltage_of_eq_0_iff: "voltage_of w = 0 \<longleftrightarrow> w = 0"
proof
  assume "w = 0"
  moreover have "swapped16 (0 :: 16 word) = 0"
    by (simp add: swapped16_bits)
  moreover have "scale_voltage 0 = 0"
    by (simp add: scale_voltage_def py_truediv_def py_mul_def py_float_def fl64_def)
  ultimately show "voltage_of w = 0"
    by (simp add: voltage_of_def)
next
  assume z: "voltage_of w = 0"
  show "w = 0"
  proof (rule ccontr)
    assume "w \<noteq> 0"
    then have "uint w \<noteq> 0" by (simp add: uint_0_iff)
    with uint_nonnegative [of w] have p: "0 < uint w" by linarith
    have d: "0 \<le> uint w div 256" and m: "0 \<le> uint w mod 256"
      by (simp_all add: pos_imp_zdiv_nonneg_iff)
    have "uint w = uint w div 256 * 256 + uint w mod 256"
      by simp
    with p have "0 < uint w div 256 \<or> 0 < uint w mod 256"
      by linarith
    with d m have "0 < uint w mod 256 * 256 + uint w div 256"
      by linarith
    then have v: "1 \<le> uint (swapped16 w)"
      by (simp add: swapped16_uint)
    define a where "a = py_float (uint (swapped16 w))"
    define b where "b = py_mul a (5 / 4)"
    define c where "c = py_truediv b (py_float 1000)"
    have k: "py_float 1000 = 1000" "py_float 16 = 16"
      by (simp_all add: py_float_def fl64_def ilog2_def pow2_def round_half_even_def Let_def
            compute_bitlen)
    have p0: "pow2 0 = 1"
      by (simp add: pow2_def)
    have "(of_int 1 :: rat) \<le> of_int (uint (swapped16 w))"
      using v by (rule iffD2 [OF of_int_le_iff])
    then have "pow2 0 \<le> of_int (uint (swapped16 w))"
      unfolding p0 of_int_1 .
    from fl64_ge_pow2 [OF this] have a: "1 \<le> a"
      by (simp add: a_def py_float_def pow2_def)
    then have "pow2 0 \<le> a * (5 / 4)"
      by (simp add: pow2_def)
    from fl64_ge_pow2 [OF this] have b: "1 \<le> b"
      by (simp add: b_def py_mul_def pow2_def)
    then have "pow2 (- 10) \<le> b / 1000"
      by (simp add: pow2_def)
    from fl64_ge_pow2 [OF this] have c: "1 / 1024 \<le> c"
      by (simp add: c_def py_truediv_def pow2_def k)
    then have "pow2 (- 14) \<le> c / 16"
      by (simp add: pow2_def)
    from fl64_ge_pow2 [OF this] have "0 < py_truediv c (py_float 16)"
      by (simp add: py_truediv_def pow2_def k)
    then have "0 < voltage_of w"
      by (simp add: voltage_of_def scale_voltage_def a_def b_def c_def)
    with z show False by simp
  qed
qed

section \<open>The read cycle\<close>

text \<open>The three ways a read cycle ends, by the answers of the bus.\<close>

lemma get_sensor_data_fault2:
  "read_word_data env t (i2c self) (i2c_addr self) 2 = Inl e \<Longrightarrow>
   get_sensor_data env self t = (Inl e, self, t @ [ReadWordData (i2c self) (i2c_addr self) 2])"
  by (simp add: get_sensor_data_def)

lemma get_sensor_data_fault4:
  "read_word_data env t (i2c self) (i2c_addr self) 2 = Inr w2 \<Longrightarrow>
   read_word_data env (t @ [ReadWordData (i2c self) (i2c_addr self) 2])
     (i2c self) (i2c_addr self) 4 = Inl e \<Longrightarrow>
   get_sensor_data env self t =
     (Inl e,
      self\<lparr>data := (data self)\<lparr>FieldData.voltage := PyFloat (voltage_of w2)\<rparr>\<rparr>,
      t @ [ReadWordData (i2c self) (i2c_addr self) 2, ReadWordData (i2c self) (i2c_addr self) 4])"
  by (simp add: get_sensor_data_def)

lemma get_sensor_data_ok:
  "read_word_data env t (i2c self) (i2c_addr self) 2 = Inr w2 \<Longrightarrow>
   read_word_data env (t @ [ReadWordData (i2c self) (i2c_addr self) 2])
     (i2c self) (i2c_addr self) 4 = Inr w4 \<Longrightarrow>
   get_sensor_data env self t =
     (Inr True,
      self\<lparr>data := (data self)\<lparr>FieldData.voltage := PyFloat (voltage_of w2),
                                FieldData.capacity := PyFloat (capacity_of w4)\<rparr>\<rparr>,
      t @ [ReadWordData (i2c self) (i2c_addr self) 2, ReadWordData (i2c self) (i2c_addr self) 4])"
  by (simp add: get_sensor_data_def)

text \<open>A read cycle that returns has read both registers, and says what it stored.\<close>

lemma get_sensor_data_InrD:
  assumes "get_sensor_data env self t = (Inr r, self', t')"
  shows "r"
    and "t' = t @ [ReadWordData (i2c self) (i2c_addr self) 2,
                   ReadWordData (i2c self) (i2c_addr self) 4]"
    and "\<exists>w2 w4.
           read_word_data env t (i2c self) (i2c_addr self) 2 = Inr w2 \<and>
           read_word_data env (t @ [ReadWordData (i2c self) (i2c_addr self) 2])
             (i2c self) (i2c_addr self) 4 = Inr w4 \<and>
           self' = self\<lparr>data := (data self)\<lparr>FieldData.voltage := PyFloat (voltage_of w2),
                                             FieldData.capacity := PyFloat (capacity_of w4)\<rparr>\<rparr>"
  using assms
  by (auto simp: get_sensor_data_def Let_def split: sum.splits)

text \<open>A read cycle that raises has raised what the bus raised, and slept at no time.\<close>

lemma get_sensor_data_InlD:
  assumes "get_sensor_data env self t = (Inl e, self', t')"
  shows "(read_word_data env t (i2c self) (i2c_addr self) 2 = Inl e \<and> self' = self \<and>
          t' = t @ [ReadWordData (i2c self) (i2c_addr self) 2]) \<or>
         (\<exists>w2. read_word_data env t (i2c self) (i2c_addr self) 2 = Inr w2 \<and>
           read_word_data env (t @ [ReadWordData (i2c self) (i2c_addr self) 2])
             (i2c self) (i2c_addr self) 4 = Inl e \<and>
           self' = self\<lparr>data := (data self)\<lparr>FieldData.voltage := PyFloat (voltage_of w2)\<rparr>\<rparr> \<and>
           t' = t @ [ReadWordData (i2c self) (i2c_addr self) 2,
                     ReadWordData (i2c self) (i2c_addr self) 4])"
  using assms
  by (auto simp: get_sensor_data_def Let_def split: sum.splits)

text \<open>The address and the bus of the device object never change.\<close>

lemma get_sensor_data_handle:
  assumes "get_sensor_data env self t = (r, self', t')"
  shows "i2c self' = i2c self" and "i2c_addr self' = i2c_addr self"
  using assms
  by (auto simp: get_sensor_data_def Let_def split: sum.splits)

text \<open>The trace only grows.\<close>

lemma get_sensor_data_trace:
  assumes "get_sensor_data env self t = (r, self', t')"
  shows "\<exists>evs. t' = t @ evs \<and> evs \<noteq> []"
  using assms
  by (auto simp: get_sensor_data_def Let_def split: sum.splits)

text \<open>
  C9: the read cycle returns \<^verbatim>\<open>True\<close> whenever it returns. Its outcome is the first
  fault of the bus, as an exception, and \<^verbatim>\<open>True\<close> when neither read faults: \<^verbatim>\<open>False\<close>
  is never returned.
\<close>

theorem get_sensor_data_never_False:
  "fst (get_sensor_data env self t) \<noteq> Inr False \<and>
   fst (get_sensor_data env self t) =
     (case read_word_data env t (i2c self) (i2c_addr self) 2 of
        Inl e \<Rightarrow> Inl e
      | Inr w2 \<Rightarrow>
          (case read_word_data env (t @ [ReadWordData (i2c self) (i2c_addr self) 2])
                  (i2c self) (i2c_addr self) 4 of
             Inl e \<Rightarrow> Inl e
           | Inr w4 \<Rightarrow> Inr True))"
  by (simp add: get_sensor_data_def Let_def split: sum.splits)

section \<open>Refresh\<close>

text \<open>\<^verbatim>\<open>update()\<close> without \<open>first_read\<close> is one read cycle and, when it returns, the copy.\<close>

lemma update_False:
  "update env False h t =
     (case get_sensor_data env (sensor h) t of
        (Inl e, s, t2) \<Rightarrow> (Inl e, h\<lparr>sensor := s\<rparr>, t2)
      | (Inr ok, s, t2) \<Rightarrow>
          (Inr (),
           h\<lparr>sensor := s,
             sensor_data := \<lparr>voltage = FieldData.voltage (data s),
                             capacity = FieldData.capacity (data s)\<rparr>\<rparr>,
           t2))"
  by (auto simp: update_def split: prod.splits sum.splits dest: get_sensor_data_InrD(1))

text \<open>With \<open>first_read\<close> a read cycle comes first; when it raises, that is the outcome.\<close>

lemma update_True:
  "update env True h t =
     (case get_sensor_data env (sensor h) t of
        (Inl e, s, t1) \<Rightarrow> (Inl e, h\<lparr>sensor := s\<rparr>, t1)
      | (Inr ok, s, t1) \<Rightarrow> update env False (h\<lparr>sensor := s\<rparr>) t1)"
  by (simp add: update_def split: prod.splits sum.splits)

lemma update_ok:
  assumes "read_word_data env t (i2c (sensor h)) (i2c_addr (sensor h)) 2 = Inr w2"
    and "read_word_data env (t @ [ReadWordData (i2c (sensor h)) (i2c_addr (sensor h)) 2])
           (i2c (sensor h)) (i2c_addr (sensor h)) 4 = Inr w4"
  shows "update env False h t =
     (Inr (),
      \<lparr>sensor_data = \<lparr>voltage = PyFloat (voltage_of w2), capacity = PyFloat (capacity_of w4)\<rparr>,
       sensor = (sensor h)\<lparr>data := \<lparr>status = status (data (sensor h)),
                                     voltage = PyFloat (voltage_of w2),
                                     capacity = PyFloat (capacity_of w4)\<rparr>\<rparr>\<rparr>,
      t @ [ReadWordData (i2c (sensor h)) (i2c_addr (sensor h)) 2,
           ReadWordData (i2c (sensor h)) (i2c_addr (sensor h)) 4])"
  by (simp add: update_False get_sensor_data_ok [OF assms])

text \<open>What a refresh leaves of the cache: the cache as it was, or both values of its last cycle.\<close>

lemma update_cache:
  assumes "update env first_read h t = (r, h', t')"
  shows "(\<exists>e. r = Inl e \<and> sensor_data h' = sensor_data h) \<or>
         (r = Inr () \<and>
          sensor_data h' = \<lparr>voltage = FieldData.voltage (data (sensor h')),
                             capacity = FieldData.capacity (data (sensor h'))\<rparr>)"
  using assms
  by (cases first_read)
     (auto simp: update_True update_False split: prod.splits sum.splits)

lemma update_handle:
  assumes "update env first_read h t = (r, h', t')"
  shows "i2c (sensor h') = i2c (sensor h) \<and> i2c_addr (sensor h') = i2c_addr (sensor h)"
proof -
  have F: "i2c (sensor h2) = i2c (sensor h1) \<and> i2c_addr (sensor h2) = i2c_addr (sensor h1)"
    if "update env False h1 t1 = (r1, h2, t2)" for h1 t1 r1 h2 t2
    using that
    by (auto simp: update_False split: prod.splits sum.splits dest: get_sensor_data_handle)
  show ?thesis
  proof (cases first_read)
    case False
    with assms show ?thesis by (auto dest: F)
  next
    case True
    obtain r1 s1 t1 where g: "get_sensor_data env (sensor h) t = (r1, s1, t1)"
      by (cases "get_sensor_data env (sensor h) t")
    note k = get_sensor_data_handle [OF g]
    show ?thesis
    proof (cases r1)
      case (Inl e)
      with assms True g k show ?thesis by (auto simp: update_True)
    next
      case (Inr ok)
      with assms True g have "update env False (h\<lparr>sensor := s1\<rparr>) t1 = (r, h', t')"
        by (simp add: update_True)
      from F [OF this] k show ?thesis by simp
    qed
  qed
qed

text \<open>The floats of the claim's three examples.\<close>

lemma scale_examples:
  "scale_voltage 0 = 0" "scale_capacity 0 = 0" "scale_voltage 3200 = 1 / 4"
  "scale_capacity 12800 = 50"
  by (simp_all add: scale_voltage_def scale_capacity_def py_truediv_def py_mul_def
        py_float_def fl64_def ilog2_def pow2_def round_half_even_def Let_def compute_bitlen)

text \<open>
  C5: a refresh on a bus that answers \<open>w2\<close> and \<open>w4\<close> reads register 2 and then register 4
  of the device, swaps the bytes of each word (\<open>v\<close> is the low byte times 256 plus the
  high byte) and caches the floats \<^verbatim>\<open>v * 1.25 / 1000 / 16\<close> and \<^verbatim>\<open>v / 256\<close>, each
  operation a float operation, with nothing clamped and nothing rounded afterwards. The
  raw word 0 gives 0.0 and 0.0, \<open>v = 3200\<close> gives 0.25 volts and \<open>v = 12800\<close> gives 50.0
  percent.
\<close>

theorem update_converts:
  assumes "read_word_data env t (i2c (sensor h)) (i2c_addr (sensor h)) 2 = Inr w2"
    and "read_word_data env (t @ [ReadWordData (i2c (sensor h)) (i2c_addr (sensor h)) 2])
           (i2c (sensor h)) (i2c_addr (sensor h)) 4 = Inr w4"
    and "v2 = uint w2 mod 256 * 256 + uint w2 div 256"
    and "v4 = uint w4 mod 256 * 256 + uint w4 div 256"
  shows "fst (update env False h t) = Inr () \<and>
         snd (snd (update env False h t)) =
           t @ [ReadWordData (i2c (sensor h)) (i2c_addr (sensor h)) 2,
                ReadWordData (i2c (sensor h)) (i2c_addr (sensor h)) 4] \<and>
         sensor_data (fst (snd (update env False h t))) =
           \<lparr>voltage = PyFloat (py_truediv (py_truediv (py_mul (py_float v2) (5 / 4))
                                  (py_float 1000)) (py_float 16)),
            capacity = PyFloat (py_truediv (py_float v4) (py_float 256))\<rparr> \<and>
         voltage_of 0 = 0 \<and> capacity_of 0 = 0 \<and>
         scale_voltage 3200 = 1 / 4 \<and> scale_capacity 12800 = 50"
proof -
  have "swapped16 (0 :: 16 word) = 0"
    by (simp add: swapped16_bits)
  then have "voltage_of 0 = 0" "capacity_of 0 = 0"
    by (simp_all add: voltage_of_def capacity_of_def scale_examples)
  then show ?thesis
    using assms(3,4)
    by (simp add: update_ok [OF assms(1,2)] voltage_of_def capacity_of_def swapped16_uint
          scale_voltage_def scale_capacity_def scale_examples [unfolded scale_voltage_def scale_capacity_def])
qed

theorem update_converts_witness:
  "fst (update (steady_bus 0x800C 0x0032) False (ready_handler 0 0) []) = Inr () \<and>
   snd (snd (update (steady_bus 0x800C 0x0032) False (ready_handler 0 0) [])) =
     [ReadWordData 1 54 2, ReadWordData 1 54 4] \<and>
   sensor_data (fst (snd (update (steady_bus 0x800C 0x0032) False (ready_handler 0 0) []))) =
     \<lparr>voltage = PyFloat (1 / 4), capacity = PyFloat 50\<rparr>"
proof -
  let ?env = "steady_bus 0x800C 0x0032" and ?h = "ready_handler 0 0"
  have r2: "read_word_data ?env [] (i2c (sensor ?h)) (i2c_addr (sensor ?h)) 2 = Inr 0x800C"
    by (simp add: steady_bus_def)
  have r4: "read_word_data ?env ([] @ [ReadWordData (i2c (sensor ?h)) (i2c_addr (sensor ?h)) 2])
              (i2c (sensor ?h)) (i2c_addr (sensor ?h)) 4 = Inr 0x0032"
    by (simp add: steady_bus_def)
  have v2: "(3200 :: int) = uint (0x800C :: 16 word) mod 256 * 256 + uint (0x800C :: 16 word) div 256"
    by simp
  have v4: "(12800 :: int) = uint (0x0032 :: 16 word) mod 256 * 256 + uint (0x0032 :: 16 word) div 256"
    by simp
  have hb: "i2c (sensor ?h) = 1" "i2c_addr (sensor ?h) = 54"
    by (simp_all add: ready_handler_def DEFAULT_I2C_ADDRESS_def DEFAULT_I2C_BUS_def)
  have sv: "py_truediv (py_truediv (py_mul (py_float 3200) (5 / 4)) (py_float 1000))
              (py_float 16) = 1 / 4"
    using scale_examples(3) by (simp only: scale_voltage_def)
  have sc: "py_truediv (py_float 12800) (py_float 256) = 50"
    using scale_examples(4) by (simp only: scale_capacity_def)
  show ?thesis
    using update_converts [OF r2 r4 v2 v4]
    by (simp only: hb sv sc append_Nil)
qed

text \<open>A refresh by the answers of the bus, without \<open>first_read\<close> and with it.\<close>

lemma update_False_reads:
  assumes "b = i2c (sensor h)" and "a = i2c_addr (sensor h)"
    and "r2 = ReadWordData b a 2" and "r4 = ReadWordData b a 4"
    and "old = FieldData.capacity (data (sensor h))"
    and "dev = (\<lambda>v c. (sensor h)\<lparr>data := \<lparr>status = status (data (sensor h)),
                                             voltage = v, capacity = c\<rparr>\<rparr>)"
  shows "update env False h t =
     (case read_word_data env t b a 2 of
        Inl e \<Rightarrow> (Inl e, h, t @ [r2])
      | Inr w2 \<Rightarrow>
     (case read_word_data env (t @ [r2]) b a 4 of
        Inl e \<Rightarrow> (Inl e, h\<lparr>sensor := dev (PyFloat (voltage_of w2)) old\<rparr>, t @ [r2, r4])
      | Inr w4 \<Rightarrow>
          (Inr (),
           \<lparr>sensor_data = \<lparr>voltage = PyFloat (voltage_of w2),
                            capacity = PyFloat (capacity_of w4)\<rparr>,
            sensor = dev (PyFloat (voltage_of w2)) (PyFloat (capacity_of w4))\<rparr>,
           t @ [r2, r4])))"
  using assms
  by (simp add: update_False get_sensor_data_def Let_def split: sum.splits)

lemma update_True_reads:
  assumes "b = i2c (sensor h)" and "a = i2c_addr (sensor h)"
    and "r2 = ReadWordData b a 2" and "r4 = ReadWordData b a 4"
    and "old = FieldData.capacity (data (sensor h))"
    and "dev = (\<lambda>v c. (sensor h)\<lparr>data := \<lparr>status = status (data (sensor h)),
                                             voltage = v, capacity = c\<rparr>\<rparr>)"
  shows "update env True h t =
     (case read_word_data env t b a 2 of
        Inl e \<Rightarrow> (Inl e, h, t @ [r2])
      | Inr w1 \<Rightarrow>
     (case read_word_data env (t @ [r2]) b a 4 of
        Inl e \<Rightarrow> (Inl e, h\<lparr>sensor := dev (PyFloat (voltage_of w1)) old\<rparr>, t @ [r2, r4])
      | Inr w2 \<Rightarrow>
     (case read_word_data env (t @ [r2, r4]) b a 2 of
        Inl e \<Rightarrow>
          (Inl e, h\<lparr>sensor := dev (PyFloat (voltage_of w1)) (PyFloat (capacity_of w2))\<rparr>,
           t @ [r2, r4, r2])
      | Inr w3 \<Rightarrow>
     (case read_word_data env (t @ [r2, r4, r2]) b a 4 of
        Inl e \<Rightarrow>
          (Inl e, h\<lparr>sensor := dev (PyFloat (voltage_of w3)) (PyFloat (capacity_of w2))\<rparr>,
           t @ [r2, r4, r2, r4])
      | Inr w4 \<Rightarrow>
          (Inr (),
           \<lparr>sensor_data = \<lparr>voltage = PyFloat (voltage_of w3),
                            capacity = PyFloat (capacity_of w4)\<rparr>,
            sensor = dev (PyFloat (voltage_of w3)) (PyFloat (capacity_of w4))\<rparr>,
           t @ [r2, r4, r2, r4])))))"
  using assms
  by (simp add: update_True update_False get_sensor_data_def Let_def split: sum.splits)

text \<open>When a refresh raises, it raises what a word read raised, and the cache is kept.\<close>

lemma update_raise_keeps_cache:
  assumes "fst (update env first_read h t) = Inl e"
  shows "sensor_data (fst (snd (update env first_read h t))) = sensor_data h \<and>
         (\<exists>t' r. read_word_data env t' (i2c (sensor h)) (i2c_addr (sensor h)) r = Inl e)"
proof -
  obtain r h' t' where u: "update env first_read h t = (r, h', t')"
    by (cases "update env first_read h t")
  with assms have r: "r = Inl e" by simp
  have cache: "sensor_data h' = sensor_data h"
    using update_cache [OF u] r by auto
  have F: "\<exists>t' r. read_word_data env t' (i2c s) (i2c_addr s) r = Inl e"
    if "get_sensor_data env s t1 = (Inl e, s', t2)" for s t1 s' t2
    using get_sensor_data_InlD [OF that] by blast
  have bus: "\<exists>t' r. read_word_data env t' (i2c (sensor h)) (i2c_addr (sensor h)) r = Inl e"
  proof (cases first_read)
    case False
    with u r show ?thesis
      by (auto simp: update_False split: prod.splits sum.splits dest: F)
  next
    case True
    obtain r1 s1 t1 where g: "get_sensor_data env (sensor h) t = (r1, s1, t1)"
      by (cases "get_sensor_data env (sensor h) t")
    show ?thesis
    proof (cases r1)
      case (Inl e1)
      with u r g True have "e1 = e" by (simp add: update_True)
      with g Inl show ?thesis by (auto dest: F)
    next
      case (Inr ok)
      with u r g True have "update env False (h\<lparr>sensor := s1\<rparr>) t1 = (Inl e, h', t')"
        by (simp add: update_True)
      then have "\<exists>t' r. read_word_data env t' (i2c s1) (i2c_addr s1) r = Inl e"
        by (auto simp: update_False split: prod.splits sum.splits dest: F)
      with get_sensor_data_handle [OF g] show ?thesis by simp
    qed
  qed
  show ?thesis
    unfolding u fst_conv snd_conv using cache bus by blast
qed

text \<open>
  C2, as the code has it. A refresh is given by the answers of the bus: at the first read
  that faults, the voltage read or the capacity read, in the throwaway cycle or in the real
  one, it raises what the bus raised, and the handler it leaves has the cache it had before,
  voltage and capacity. Whenever a refresh raises, the cache is what it was, and what it
  raises was raised by a word read. The device object below the handler stores each value
  as soon as it is converted: it is unchanged when the first voltage read faults, and holds
  a new voltage beside an older capacity when a capacity read faults.
\<close>

theorem update_fault_keeps_cache:
  "(let b = i2c (sensor h); a = i2c_addr (sensor h);
        r2 = ReadWordData b a 2; r4 = ReadWordData b a 4;
        old = FieldData.capacity (data (sensor h));
        dev = (\<lambda>v c. (sensor h)\<lparr>data := \<lparr>status = status (data (sensor h)),
                                              voltage = v, capacity = c\<rparr>\<rparr>)
    in update env False h t =
         (case read_word_data env t b a 2 of
            Inl e \<Rightarrow> (Inl e, h, t @ [r2])
          | Inr w2 \<Rightarrow>
         (case read_word_data env (t @ [r2]) b a 4 of
            Inl e \<Rightarrow> (Inl e, h\<lparr>sensor := dev (PyFloat (voltage_of w2)) old\<rparr>, t @ [r2, r4])
          | Inr w4 \<Rightarrow>
              (Inr (),
               \<lparr>sensor_data = \<lparr>voltage = PyFloat (voltage_of w2),
                                capacity = PyFloat (capacity_of w4)\<rparr>,
                sensor = dev (PyFloat (voltage_of w2)) (PyFloat (capacity_of w4))\<rparr>,
               t @ [r2, r4]))) \<and>
       update env True h t =
         (case read_word_data env t b a 2 of
            Inl e \<Rightarrow> (Inl e, h, t @ [r2])
          | Inr w1 \<Rightarrow>
         (case read_word_data env (t @ [r2]) b a 4 of
            Inl e \<Rightarrow> (Inl e, h\<lparr>sensor := dev (PyFloat (voltage_of w1)) old\<rparr>, t @ [r2, r4])
          | Inr w2 \<Rightarrow>
         (case read_word_data env (t @ [r2, r4]) b a 2 of
            Inl e \<Rightarrow>
              (Inl e, h\<lparr>sensor := dev (PyFloat (voltage_of w1)) (PyFloat (capacity_of w2))\<rparr>,
               t @ [r2, r4, r2])
          | Inr w3 \<Rightarrow>
         (case read_word_data env (t @ [r2, r4, r2]) b a 4 of
            Inl e \<Rightarrow>
              (Inl e, h\<lparr>sensor := dev (PyFloat (voltage_of w3)) (PyFloat (capacity_of w2))\<rparr>,
               t @ [r2, r4, r2, r4])
          | Inr w4 \<Rightarrow>
              (Inr (),
               \<lparr>sensor_data = \<lparr>voltage = PyFloat (voltage_of w3),
                                capacity = PyFloat (capacity_of w4)\<rparr>,
                sensor = dev (PyFloat (voltage_of w3)) (PyFloat (capacity_of w4))\<rparr>,
               t @ [r2, r4, r2, r4])))))) \<and>
   (fst (update env first_read h t) = Inl e \<longrightarrow>
      sensor_data (fst (snd (update env first_read h t))) = sensor_data h \<and>
      (\<exists>t' r. read_word_data env t' (i2c (sensor h)) (i2c_addr (sensor h)) r = Inl e))"
  unfolding Let_def
  using update_False_reads [OF refl refl refl refl refl refl, of env h t]
    update_True_reads [OF refl refl refl refl refl refl, of env h t]
    update_raise_keeps_cache [of env first_read h t e]
  by blast

theorem update_fault_keeps_cache_witness:
  "update (failing_bus 0 0x800C 0x0064) False (ready_handler 0x0019 0x0032) [] =
     (Inl IOError, ready_handler 0x0019 0x0032, [ReadWordData 1 54 2]) \<and>
   update (failing_bus 1 0x800C 0x0064) False (ready_handler 0x0019 0x0032) [] =
     (Inl IOError,
      (ready_handler 0x0019 0x0032)
        \<lparr>sensor := \<lparr>data = \<lparr>status = PyNone, voltage = PyFloat (voltage_of 0x800C),
                             capacity = PyFloat (capacity_of 0x0032)\<rparr>,
                     i2c_addr = 54, i2c = 1\<rparr>\<rparr>,
      [ReadWordData 1 54 2, ReadWordData 1 54 4]) \<and>
   fst (update (failing_bus 3 0x800C 0x0064) True (ready_handler 0x0019 0x0032) []) =
     Inl IOError \<and>
   sensor_data (fst (snd (update (failing_bus 3 0x800C 0x0064) True
                            (ready_handler 0x0019 0x0032) []))) =
     sensor_data (ready_handler 0x0019 0x0032)"
proof -
  let ?h = "ready_handler 0x0019 0x0032"
  have h: "i2c (sensor ?h) = 1" "i2c_addr (sensor ?h) = 54" "status (data (sensor ?h)) = PyNone"
    "FieldData.capacity (data (sensor ?h)) = PyFloat (capacity_of 0x0032)"
    by (simp_all add: ready_handler_def DEFAULT_I2C_ADDRESS_def DEFAULT_I2C_BUS_def)
  have a: "update (failing_bus 0 0x800C 0x0064) False ?h [] =
     (Inl IOError, ?h, [ReadWordData 1 54 2])"
    using update_fault_keeps_cache [where env = "failing_bus 0 0x800C 0x0064" and h = ?h and t = "[]"]
    by (simp add: Let_def h failing_bus_def)
  have b: "update (failing_bus 1 0x800C 0x0064) False ?h [] =
     (Inl IOError,
      ?h\<lparr>sensor := \<lparr>data = \<lparr>status = PyNone, voltage = PyFloat (voltage_of 0x800C),
                             capacity = PyFloat (capacity_of 0x0032)\<rparr>,
                     i2c_addr = 54, i2c = 1\<rparr>\<rparr>,
      [ReadWordData 1 54 2, ReadWordData 1 54 4])"
    using update_fault_keeps_cache [where env = "failing_bus 1 0x800C 0x0064" and h = ?h and t = "[]"]
    by (simp add: Let_def h failing_bus_def)
  have c: "fst (update (failing_bus 3 0x800C 0x0064) True ?h []) = Inl IOError"
    using update_fault_keeps_cache [where env = "failing_bus 3 0x800C 0x0064" and h = ?h and t = "[]"]
    by (simp add: Let_def h failing_bus_def)
  from update_fault_keeps_cache [where env = "failing_bus 3 0x800C 0x0064" and h = ?h and t = "[]"
      and first_read = True and e = IOError] c
  have "sensor_data (fst (snd (update (failing_bus 3 0x800C 0x0064) True ?h []))) =
        sensor_data ?h"
    by blast
  with a b c show ?thesis
    by blast
qed

text \<open>
  C2, as the claim has it, fails: a fault on the capacity read leaves a copy of the reading
  with a new voltage and the old capacity. On a handler holding 0.5 V and 50 percent, a
  refresh whose voltage read answers the word of 0.25 V and whose capacity read faults
  raises, and the device object then holds 0.25 V beside 50 percent.
\<close>

theorem update_partial_device_data:
  "fst (update (failing_bus 1 0x800C 0x0064) False (ready_handler 0x0019 0x0032) []) = Inl IOError \<and>
   data (sensor (ready_handler 0x0019 0x0032)) =
     \<lparr>status = PyNone, voltage = PyFloat (1 / 2), capacity = PyFloat 50\<rparr> \<and>
   data (sensor (fst (snd (update (failing_bus 1 0x800C 0x0064) False
                            (ready_handler 0x0019 0x0032) [])))) =
     \<lparr>status = PyNone, voltage = PyFloat (1 / 4), capacity = PyFloat 50\<rparr>"
proof -
  have s: "swapped16 (0x800C :: 16 word) = 3200" "swapped16 (0x0019 :: 16 word) = 6400"
          "swapped16 (0x0032 :: 16 word) = 12800"
    by (simp_all add: swapped16_bits)
  have "scale_voltage 6400 = 1 / 2"
    by (simp add: scale_voltage_def py_truediv_def py_mul_def
        py_float_def fl64_def ilog2_def pow2_def round_half_even_def Let_def compute_bitlen)
  then have v: "voltage_of 0x800C = 1 / 4" "voltage_of 0x0019 = 1 / 2" "capacity_of 0x0032 = 50"
    by (simp_all add: voltage_of_def capacity_of_def s scale_examples)
  show ?thesis
    by (simp add: update_def get_sensor_data_def failing_bus_def ready_handler_def v)
qed

section \<open>The cache over a life of polls\<close>

lemma update_trace:
  assumes "update env first_read h t = (r, h', t')"
  shows "\<exists>evs. t' = t @ evs"
proof -
  have F: "\<exists>evs. t2 = t1 @ evs" if "update env False h1 t1 = (r1, h2, t2)" for h1 t1 r1 h2 t2
    using that
    by (auto simp: update_False split: prod.splits sum.splits dest!: get_sensor_data_trace)
  show ?thesis
  proof (cases first_read)
    case False
    with assms show ?thesis by (auto dest: F)
  next
    case True
    obtain r1 s1 t1 where g: "get_sensor_data env (sensor h) t = (r1, s1, t1)"
      by (cases "get_sensor_data env (sensor h) t")
    from get_sensor_data_trace [OF g] obtain evs1 where t1: "t1 = t @ evs1" by blast
    show ?thesis
    proof (cases r1)
      case (Inl e)
      with assms True g t1 show ?thesis by (auto simp: update_True)
    next
      case (Inr ok)
      with assms True g have "update env False (h\<lparr>sensor := s1\<rparr>) t1 = (r, h', t')"
        by (simp add: update_True)
      from F [OF this] t1 show ?thesis by auto
    qed
  qed
qed

text \<open>
  A refresh that returns has ended with a read cycle without a fault, and the cache holds
  the conversions of the two words of that cycle.
\<close>

lemma update_InrD:
  assumes "update env first_read h t = (Inr u, h', t')"
  shows "\<exists>evs w2 w4.
           t' = (t @ evs) @ [ReadWordData (i2c (sensor h)) (i2c_addr (sensor h)) 2,
                            ReadWordData (i2c (sensor h)) (i2c_addr (sensor h)) 4] \<and>
           read_word_data env (t @ evs) (i2c (sensor h)) (i2c_addr (sensor h)) 2 = Inr w2 \<and>
           read_word_data env ((t @ evs) @ [ReadWordData (i2c (sensor h)) (i2c_addr (sensor h)) 2])
             (i2c (sensor h)) (i2c_addr (sensor h)) 4 = Inr w4 \<and>
           sensor_data h' =
             \<lparr>voltage = PyFloat (voltage_of w2), capacity = PyFloat (capacity_of w4)\<rparr>"
proof -
  have F: "\<exists>w2 w4.
           t2 = t1 @ [ReadWordData (i2c (sensor h1)) (i2c_addr (sensor h1)) 2,
                      ReadWordData (i2c (sensor h1)) (i2c_addr (sensor h1)) 4] \<and>
           read_word_data env t1 (i2c (sensor h1)) (i2c_addr (sensor h1)) 2 = Inr w2 \<and>
           read_word_data env (t1 @ [ReadWordData (i2c (sensor h1)) (i2c_addr (sensor h1)) 2])
             (i2c (sensor h1)) (i2c_addr (sensor h1)) 4 = Inr w4 \<and>
           sensor_data h2 =
             \<lparr>voltage = PyFloat (voltage_of w2), capacity = PyFloat (capacity_of w4)\<rparr>"
    if upd: "update env False h1 t1 = (Inr u, h2, t2)" for h1 t1 h2 t2
  proof -
    obtain r s t3 where g: "get_sensor_data env (sensor h1) t1 = (r, s, t3)"
      by (cases "get_sensor_data env (sensor h1) t1")
    with upd obtain ok where r: "r = Inr ok"
      by (cases r) (auto simp: update_False)
    from upd g r have c: "sensor_data h2 = \<lparr>voltage = FieldData.voltage (data s),
                                             capacity = FieldData.capacity (data s)\<rparr>"
      and t3: "t3 = t2"
      by (auto simp: update_False)
    from get_sensor_data_InrD(2,3) [OF g [unfolded r]] c t3 show ?thesis
      by auto
  qed
  show ?thesis
  proof (cases first_read)
    case False
    with assms have "update env False h t = (Inr u, h', t')" by simp
    from F [OF this] show ?thesis
      by (intro exI [of _ "[]"]) simp
  next
    case True
    obtain r1 s1 t1 where g: "get_sensor_data env (sensor h) t = (r1, s1, t1)"
      by (cases "get_sensor_data env (sensor h) t")
    from get_sensor_data_trace [OF g] obtain evs1 where t1: "t1 = t @ evs1" by blast
    show ?thesis
    proof (cases r1)
      case (Inl e)
      with assms True g show ?thesis by (simp add: update_True)
    next
      case (Inr ok)
      with assms True g have "update env False (h\<lparr>sensor := s1\<rparr>) t1 = (Inr u, h', t')"
        by (simp add: update_True)
      from F [OF this] get_sensor_data_handle [OF g] t1 show ?thesis
        by (intro exI [of _ evs1]) simp
    qed
  qed
qed

lemma update_Inr_reading:
  assumes "update env first_read h t = (Inr u, h', t')"
  shows "is_reading (sensor_data h')"
  using update_InrD [OF assms] by (auto simp: is_reading_def)

lemma update_keeps_reading:
  assumes "update env first_read h t = (r, h', t')" and "is_reading (sensor_data h)"
  shows "is_reading (sensor_data h')"
proof (cases r)
  case (Inl e)
  with update_cache [OF assms(1)] assms(2) show ?thesis by auto
next
  case (Inr u)
  with assms(1) show ?thesis by (auto dest: update_Inr_reading)
qed

lemma polls_keep_reading:
  "is_reading (sensor_data h) \<Longrightarrow> is_reading (sensor_data (fst (polls env frs (h, t))))"
proof (induction frs arbitrary: h t)
  case Nil
  then show ?case by simp
next
  case (Cons first_read frs)
  obtain r h' t' where u: "update env first_read h t = (r, h', t')"
    by (cases "update env first_read h t")
  from update_keeps_reading [OF u Cons.prems] have "is_reading (sensor_data h')" .
  from Cons.IH [OF this] show ?case by (simp add: u)
qed

lemma X720Handler_init_InrD:
  assumes "X720Handler_init env s t = (Inr h, t')"
  shows "update env True \<lparr>sensor_data = SensorData_init, sensor = s\<rparr> t = (Inr (), h, t')"
  using assms
  by (auto simp: X720Handler_init_def split: prod.splits sum.splits)

text \<open>
  C8: the cache is empty only until the first refresh that returns. Every refresh leaves
  the cache as it was or with a reading in it; a refresh that returns leaves a reading
  in it, and so does the constructor of the handler when it returns; and a cache that
  holds a reading holds one after any number of polls, of which any may raise.
\<close>

theorem cache_never_reverts:
  "(sensor_data (fst (snd (update env first_read h t))) = sensor_data h \<or>
    is_reading (sensor_data (fst (snd (update env first_read h t))))) \<and>
   (fst (update env first_read h t) = Inr () \<longrightarrow>
      is_reading (sensor_data (fst (snd (update env first_read h t))))) \<and>
   (fst (X720Handler_init env s t) = Inr h0 \<longrightarrow> is_reading (sensor_data h0)) \<and>
   (is_reading (sensor_data h) \<longrightarrow> is_reading (sensor_data (fst (polls env frs (h, t)))))"
proof -
  obtain r h' t' where u: "update env first_read h t = (r, h', t')"
    by (cases "update env first_read h t")
  have a: "sensor_data h' = sensor_data h \<or> is_reading (sensor_data h')"
    using update_cache [OF u] update_Inr_reading [of env first_read h t _ h' t'] u by auto
  have b: "is_reading (sensor_data h')" if "r = Inr ()"
    using u that by (auto dest: update_Inr_reading)
  have c: "is_reading (sensor_data h0)" if "fst (X720Handler_init env s t) = Inr h0"
  proof -
    from that obtain t1 where "X720Handler_init env s t = (Inr h0, t1)"
      by (cases "X720Handler_init env s t") simp
    from update_Inr_reading [OF X720Handler_init_InrD [OF this]] show ?thesis .
  qed
  show ?thesis
    unfolding u fst_conv snd_conv using a b c polls_keep_reading by blast
qed

theorem cache_never_reverts_witness:
  "fst (update (steady_bus 0x800C 0x0032) False (ready_handler 0x0019 0x0064) []) = Inr () \<and>
   is_reading (sensor_data (fst (snd (update (steady_bus 0x800C 0x0032) False
                                        (ready_handler 0x0019 0x0064) [])))) \<and>
   is_reading (sensor_data (ready_handler 0x0019 0x0064)) \<and>
   is_reading (sensor_data (fst (polls (failing_bus 3 0x800C 0x0032) [False, False, False]
                                   (ready_handler 0x0019 0x0064, []))))"
proof -
  have u: "fst (update (steady_bus 0x800C 0x0032) False (ready_handler 0x0019 0x0064) []) = Inr ()"
    by (simp add: update_def get_sensor_data_def steady_bus_def ready_handler_def)
  have r: "is_reading (sensor_data (ready_handler 0x0019 0x0064))"
    by (simp add: is_reading_def ready_handler_def)
  from u r
    cache_never_reverts [of "steady_bus 0x800C 0x0032" False "ready_handler 0x0019 0x0064" "[]"]
    cache_never_reverts [of "failing_bus 3 0x800C 0x0032" False "ready_handler 0x0019 0x0064" "[]"
      _ _ "[False, False, False]"]
  show ?thesis by blast
qed

text \<open>The cycle a cache came from stays in the trace when the trace grows.\<close>

lemma cycle_at_append:
  assumes "cycle_at env s t n sd"
  shows "cycle_at env s (t @ evs) n sd"
proof -
  from assms have l: "length (take 2 (drop n t)) = 2"
    by (simp add: cycle_at_def Let_def)
  then have n: "n + 2 \<le> length t"
    by (simp split: if_splits add: min_def)
  then have eq: "take 2 (drop n (t @ evs)) = take 2 (drop n t)" "take n (t @ evs) = take n t"
    by simp_all
  show ?thesis
    using assms unfolding cycle_at_def Let_def eq .
qed

lemma cycle_at_handle:
  assumes "cycle_at env s t n sd" and "i2c s' = i2c s" and "i2c_addr s' = i2c_addr s"
  shows "cycle_at env s' t n sd"
  using assms(1) unfolding cycle_at_def assms(2) assms(3) .

lemma from_one_cycle_iff:
  "from_one_cycle env h t \<longleftrightarrow> (\<exists>n<length t. cycle_at env (sensor h) t n (sensor_data h))"
  by (auto simp: from_one_cycle_def list_ex_iff)

lemma update_Inr_from_one_cycle:
  assumes "update env first_read h t = (Inr u, h', t')"
  shows "from_one_cycle env h' t'"
proof -
  let ?r2 = "ReadWordData (i2c (sensor h)) (i2c_addr (sensor h)) 2"
  let ?r4 = "ReadWordData (i2c (sensor h)) (i2c_addr (sensor h)) 4"
  from update_InrD [OF assms] obtain evs w2 w4 where
    t': "t' = (t @ evs) @ [?r2, ?r4]"
    and r2: "read_word_data env (t @ evs) (i2c (sensor h)) (i2c_addr (sensor h)) 2 = Inr w2"
    and r4: "read_word_data env ((t @ evs) @ [?r2]) (i2c (sensor h)) (i2c_addr (sensor h)) 4 = Inr w4"
    and sd: "sensor_data h' = \<lparr>voltage = PyFloat (voltage_of w2), capacity = PyFloat (capacity_of w4)\<rparr>"
    by blast
  have "cycle_at env (sensor h) t' (length (t @ evs)) (sensor_data h')"
    unfolding cycle_at_def Let_def t' using r2 r4 sd by simp
  then have "cycle_at env (sensor h') t' (length (t @ evs)) (sensor_data h')"
    using update_handle [OF assms] by (auto intro: cycle_at_handle)
  moreover have "length (t @ evs) < length t'"
    by (simp add: t')
  ultimately show ?thesis
    unfolding from_one_cycle_iff by blast
qed

lemma update_keeps_pairing:
  assumes "update env first_read h t = (r, h', t')"
    and "is_empty (sensor_data h) \<or> from_one_cycle env h t"
  shows "is_empty (sensor_data h') \<or> from_one_cycle env h' t'"
proof (cases r)
  case (Inr u)
  with assms(1) show ?thesis by (auto dest: update_Inr_from_one_cycle)
next
  case (Inl e)
  with update_cache [OF assms(1)] have sd: "sensor_data h' = sensor_data h" by auto
  from update_trace [OF assms(1)] obtain evs where t': "t' = t @ evs" by blast
  show ?thesis
  proof (cases "is_empty (sensor_data h)")
    case True
    with sd show ?thesis by simp
  next
    case False
    with assms(2) obtain n where n: "n < length t" "cycle_at env (sensor h) t n (sensor_data h)"
      unfolding from_one_cycle_iff by blast
    from cycle_at_append [OF n(2)] have "cycle_at env (sensor h) t' n (sensor_data h')"
      by (simp add: t' sd)
    then have "cycle_at env (sensor h') t' n (sensor_data h')"
      using update_handle [OF assms(1)] by (auto intro: cycle_at_handle)
    with n(1) t' show ?thesis
      unfolding from_one_cycle_iff by auto
  qed
qed

text \<open>
  C10: the two fields of the cache change only together. A cache that is empty, or holds
  the voltage and the capacity of one read cycle of the trace, is after any number of
  polls again empty or holds the voltage and the capacity of one read cycle of the trace:
  two reads without a fault, register 2 and right after it register 4, of which the cache
  holds the two conversions. This holds whether read cycles raise or not.
\<close>

theorem cache_fields_from_one_cycle:
  assumes "is_empty (sensor_data h) \<or> from_one_cycle env h t"
  shows "is_empty (sensor_data (fst (polls env frs (h, t)))) \<or>
         from_one_cycle env (fst (polls env frs (h, t))) (snd (polls env frs (h, t)))"
  using assms
proof (induction frs arbitrary: h t)
  case Nil
  then show ?case by simp
next
  case (Cons first_read frs)
  obtain r h' t' where u: "update env first_read h t = (r, h', t')"
    by (cases "update env first_read h t")
  from update_keeps_pairing [OF u Cons.prems]
  have "is_empty (sensor_data h') \<or> from_one_cycle env h' t'" .
  from Cons.IH [OF this] show ?case by (simp add: u)
qed

theorem cache_fields_from_one_cycle_witness:
  "is_empty (sensor_data \<lparr>sensor_data = SensorData_init, sensor = sensor (ready_handler 0 0)\<rparr>) \<and>
   from_one_cycle (steady_bus 0x800C 0x0032)
     (fst (polls (steady_bus 0x800C 0x0032) [True, False]
            (\<lparr>sensor_data = SensorData_init, sensor = sensor (ready_handler 0 0)\<rparr>, [])))
     (snd (polls (steady_bus 0x800C 0x0032) [True, False]
            (\<lparr>sensor_data = SensorData_init, sensor = sensor (ready_handler 0 0)\<rparr>, [])))"
proof -
  let ?h = "\<lparr>sensor_data = SensorData_init, sensor = sensor (ready_handler 0 0)\<rparr>"
  let ?env = "steady_bus 0x800C 0x0032"
  have e: "is_empty (sensor_data ?h)"
    by (simp add: is_empty_def SensorData_init_def)
  then have "is_empty (sensor_data ?h) \<or> from_one_cycle ?env ?h []"
    by simp
  from cache_fields_from_one_cycle [OF this, of "[True, False]"]
  have "is_empty (sensor_data (fst (polls ?env [True, False] (?h, [])))) \<or>
        from_one_cycle ?env (fst (polls ?env [True, False] (?h, [])))
          (snd (polls ?env [True, False] (?h, [])))" .
  moreover have "\<not> is_empty (sensor_data (fst (polls ?env [True, False] (?h, []))))"
    by (simp add: is_empty_def update_def get_sensor_data_def steady_bus_def)
  ultimately show ?thesis
    using e by blast
qed

section \<open>Construction and set-up\<close>

text \<open>The constructor of the device object, given a bus, by the answers of the bus.\<close>

lemma X720_init_Some:
  "X720_init env addr (Some b) t =
     (case read_word_data env t b addr 2 of
        Inl e \<Rightarrow> (Inl e, t @ [ReadWordData b addr 2])
      | Inr w2 \<Rightarrow>
          (case read_word_data env (t @ [ReadWordData b addr 2]) b addr 4 of
             Inl e \<Rightarrow> (Inl e, t @ [ReadWordData b addr 2, ReadWordData b addr 4])
           | Inr w4 \<Rightarrow>
               (Inr \<lparr>data = \<lparr>status = PyNone, voltage = PyFloat (voltage_of w2),
                               capacity = PyFloat (capacity_of w4)\<rparr>,
                     i2c_addr = addr, i2c = b\<rparr>,
                t @ [ReadWordData b addr 2, ReadWordData b addr 4])))"
  by (simp add: X720_init_def get_sensor_data_def FieldData_init_def Let_def split: sum.splits)

text \<open>The constructor of the handler: two read cycles, the second one cached.\<close>

lemma X720Handler_init_cycles:
  "X720Handler_init env s t =
     (case get_sensor_data env s t of
        (Inl e, s1, t1) \<Rightarrow> (Inl e, t1)
      | (Inr ok, s1, t1) \<Rightarrow>
          (case get_sensor_data env s1 t1 of
             (Inl e, s2, t2) \<Rightarrow> (Inl e, t2)
           | (Inr ok', s2, t2) \<Rightarrow>
               (Inr \<lparr>sensor_data = \<lparr>voltage = FieldData.voltage (data s2),
                                      capacity = FieldData.capacity (data s2)\<rparr>,
                     sensor = s2\<rparr>, t2)))"
  by (simp add: X720Handler_init_def update_True update_False SensorData_init_def
        split: prod.splits sum.splits)

lemma X720Handler_init_reads:
  assumes "i2c s = b" and "i2c_addr s = a"
    and "r2 = ReadWordData b a 2" and "r4 = ReadWordData b a 4"
  shows "X720Handler_init env s t =
     (case read_word_data env t b a 2 of
        Inl e \<Rightarrow> (Inl e, t @ [r2])
      | Inr w1 \<Rightarrow>
     (case read_word_data env (t @ [r2]) b a 4 of
        Inl e \<Rightarrow> (Inl e, t @ [r2, r4])
      | Inr w2 \<Rightarrow>
     (case read_word_data env (t @ [r2, r4]) b a 2 of
        Inl e \<Rightarrow> (Inl e, t @ [r2, r4, r2])
      | Inr w3 \<Rightarrow>
     (case read_word_data env (t @ [r2, r4, r2]) b a 4 of
        Inl e \<Rightarrow> (Inl e, t @ [r2, r4, r2, r4])
      | Inr w4 \<Rightarrow>
          (Inr \<lparr>sensor_data = \<lparr>voltage = PyFloat (voltage_of w3),
                                 capacity = PyFloat (capacity_of w4)\<rparr>,
                sensor = \<lparr>data = \<lparr>status = status (data s),
                                  voltage = PyFloat (voltage_of w3),
                                  capacity = PyFloat (capacity_of w4)\<rparr>,
                          i2c_addr = a, i2c = b\<rparr>\<rparr>,
           t @ [r2, r4, r2, r4])))))"
  using assms
  by (simp add: X720Handler_init_cycles get_sensor_data_def Let_def split: sum.splits)

text \<open>
  C4, as the code has it: the constructor of the device object, given an address and a
  bus, stores both and runs one read cycle on the bus, register 2 and then register 4.
  It raises what the bus raises at the first fault; without a fault the object it returns
  holds the two conversions.
\<close>

theorem X720_init_reads_the_bus:
  "X720_init env addr (Some b) t =
     (case read_word_data env t b addr 2 of
        Inl e \<Rightarrow> (Inl e, t @ [ReadWordData b addr 2])
      | Inr w2 \<Rightarrow>
          (case read_word_data env (t @ [ReadWordData b addr 2]) b addr 4 of
             Inl e \<Rightarrow> (Inl e, t @ [ReadWordData b addr 2, ReadWordData b addr 4])
           | Inr w4 \<Rightarrow>
               (Inr \<lparr>data = \<lparr>status = PyNone, voltage = PyFloat (voltage_of w2),
                               capacity = PyFloat (capacity_of w4)\<rparr>,
                     i2c_addr = addr, i2c = b\<rparr>,
                t @ [ReadWordData b addr 2, ReadWordData b addr 4])))"
  by (rule X720_init_Some)

text \<open>
  C4, as the claim has it, fails twice: on a bus that answers, the constructor reads two
  words; on a bus that faults, it raises.
\<close>

theorem X720_init_does_io_and_fails:
  "snd (X720_init (steady_bus 0x800C 0x0032) DEFAULT_I2C_ADDRESS (Some 1) []) =
     [ReadWordData 1 54 2, ReadWordData 1 54 4] \<and>
   X720_init (failing_bus 0 0x800C 0x0032) DEFAULT_I2C_ADDRESS (Some 1) [] =
     (Inl IOError, [ReadWordData 1 54 2])"
  by (simp add: X720_init_Some steady_bus_def failing_bus_def DEFAULT_I2C_ADDRESS_def)

text \<open>
  Set-up by the answers of the bus: the bus is opened; three read cycles follow, the first
  in the constructor of the device object, the other two in the constructor of the handler;
  the first fault ends it, caught in the first cycle and not in the other two; then the
  sleep, and the test of the voltage of the third cycle.
\<close>

lemma setup_x720_paths:
  assumes "b = CONF_I2C_BUS conf" and "a = CONF_I2C_ADDRESS conf"
    and "r2 = ReadWordData b a 2" and "r4 = ReadWordData b a 4"
    and "t0 = t @ [SMBusOpen b]"
  shows "setup_x720 env conf t =
     (case SMBus env t b of
        Some e \<Rightarrow> not_detected e t0
      | None \<Rightarrow>
     (case read_word_data env t0 b a 2 of
        Inl e \<Rightarrow> not_detected e (t0 @ [r2])
      | Inr w1 \<Rightarrow>
     (case read_word_data env (t0 @ [r2]) b a 4 of
        Inl e \<Rightarrow> not_detected e (t0 @ [r2, r4])
      | Inr w2 \<Rightarrow>
     (case read_word_data env (t0 @ [r2, r4]) b a 2 of
        Inl e \<Rightarrow> (Inl e, t0 @ [r2, r4, r2])
      | Inr w3 \<Rightarrow>
     (case read_word_data env (t0 @ [r2, r4, r2]) b a 4 of
        Inl e \<Rightarrow> (Inl e, t0 @ [r2, r4, r2, r4])
      | Inr w4 \<Rightarrow>
     (case read_word_data env (t0 @ [r2, r4, r2, r4]) b a 2 of
        Inl e \<Rightarrow> (Inl e, t0 @ [r2, r4, r2, r4, r2])
      | Inr w5 \<Rightarrow>
     (case read_word_data env (t0 @ [r2, r4, r2, r4, r2]) b a 4 of
        Inl e \<Rightarrow> (Inl e, t0 @ [r2, r4, r2, r4, r2, r4])
      | Inr w6 \<Rightarrow>
          if voltage_of w5 = 0
          then (Inr None,
                t0 @ [r2, r4, r2, r4, r2, r4, Sleep (1 / 2),
                      LogError ''X720 sensor failed to Initialize''])
          else (Inr (Some \<lparr>sensor_data = \<lparr>voltage = PyFloat (voltage_of w5),
                                            capacity = PyFloat (capacity_of w6)\<rparr>,
                           sensor = \<lparr>data = \<lparr>status = PyNone,
                                             voltage = PyFloat (voltage_of w5),
                                             capacity = PyFloat (capacity_of w6)\<rparr>,
                                     i2c_addr = a, i2c = b\<rparr>\<rparr>),
                t0 @ [r2, r4, r2, r4, r2, r4, Sleep (1 / 2)]))))))))"
proof (cases "SMBus env t b")
  case (Some e)
  with assms show ?thesis
    by (simp add: setup_x720_def SMBus_open_def)
next
  case None
  show ?thesis
  proof (cases "X720_init env a (Some b) t0")
    case (Pair r t2)
    show ?thesis
    proof (cases r)
      case (Inl e)
      with Pair None assms show ?thesis
        by (auto simp: setup_x720_def SMBus_open_def X720_init_Some split: sum.splits)
    next
      case (Inr s)
      with Pair have s: "i2c s = b" "i2c_addr s = a" "status (data s) = PyNone"
        and t2: "t2 = t0 @ [r2, r4]"
        using assms(3,4) by (auto simp: X720_init_Some split: sum.splits)
      have "setup_x720 env conf t =
        (case X720Handler_init env s t2 of
           (Inl e, t3) \<Rightarrow> (Inl e, t3)
         | (Inr sensor_handler, t3) \<Rightarrow>
             if \<not> truthy (SensorData.voltage (sensor_data sensor_handler))
             then (Inr None, t3 @ [Sleep (1 / 2), LogError ''X720 sensor failed to Initialize''])
             else (Inr (Some sensor_handler), t3 @ [Sleep (1 / 2)]))"
        using Pair Inr None assms(1,2,5)
        by (simp add: setup_x720_def SMBus_open_def Let_def split: prod.splits sum.splits)
      also have "\<dots> =
        (case read_word_data env t2 b a 2 of
        Inl e \<Rightarrow> (Inl e, t2 @ [r2])
      | Inr w3 \<Rightarrow>
     (case read_word_data env (t2 @ [r2]) b a 4 of
        Inl e \<Rightarrow> (Inl e, t2 @ [r2, r4])
      | Inr w4 \<Rightarrow>
     (case read_word_data env (t2 @ [r2, r4]) b a 2 of
        Inl e \<Rightarrow> (Inl e, t2 @ [r2, r4, r2])
      | Inr w5 \<Rightarrow>
     (case read_word_data env (t2 @ [r2, r4, r2]) b a 4 of
        Inl e \<Rightarrow> (Inl e, t2 @ [r2, r4, r2, r4])
      | Inr w6 \<Rightarrow>
          if voltage_of w5 = 0
          then (Inr None,
                t2 @ [r2, r4, r2, r4, Sleep (1 / 2),
                      LogError ''X720 sensor failed to Initialize''])
          else (Inr (Some \<lparr>sensor_data = \<lparr>voltage = PyFloat (voltage_of w5),
                                            capacity = PyFloat (capacity_of w6)\<rparr>,
                           sensor = \<lparr>data = \<lparr>status = PyNone,
                                             voltage = PyFloat (voltage_of w5),
                                             capacity = PyFloat (capacity_of w6)\<rparr>,
                                     i2c_addr = a, i2c = b\<rparr>\<rparr>),
                t2 @ [r2, r4, r2, r4, Sleep (1 / 2)])))))"
        by (simp add: X720Handler_init_reads [OF s(1,2) assms(3,4)] s(3) split: sum.splits)
      finally show ?thesis
        using Pair Inr None
        by (auto simp: X720_init_Some t2 assms(3,4) split: sum.splits)
    qed
  qed
qed

lemma voltage_examples:
  "voltage_of 0 = 0" "voltage_of 0x800C = 1 / 4" "capacity_of 0x0032 = 50"
proof -
  have "swapped16 (0 :: 16 word) = 0" "swapped16 (0x800C :: 16 word) = 3200"
       "swapped16 (0x0032 :: 16 word) = 12800"
    by (simp_all add: swapped16_bits)
  then show "voltage_of 0 = 0" "voltage_of 0x800C = 1 / 4" "capacity_of 0x0032 = 50"
    by (simp_all add: voltage_of_def capacity_of_def scale_examples)
qed

lemma steady_setup:
  "setup_x720 (steady_bus 0x800C 0x0032) default_config [] =
     (Inr (Some \<lparr>sensor_data = \<lparr>voltage = PyFloat (1 / 4), capacity = PyFloat 50\<rparr>,
                 sensor = \<lparr>data = \<lparr>status = PyNone, voltage = PyFloat (1 / 4),
                                   capacity = PyFloat 50\<rparr>,
                           i2c_addr = 54, i2c = 1\<rparr>\<rparr>),
      [SMBusOpen 1, ReadWordData 1 54 2, ReadWordData 1 54 4, ReadWordData 1 54 2,
       ReadWordData 1 54 4, ReadWordData 1 54 2, ReadWordData 1 54 4, Sleep (1 / 2)])"
  by (simp add: setup_x720_paths [OF refl refl refl refl refl] steady_bus_def default_config_def
        DEFAULT_I2C_ADDRESS_def DEFAULT_I2C_BUS_def voltage_examples)

text \<open>No wait lies between two reads when no read comes after a sleep.\<close>

lemma delay_between_reads_iff:
  "delay_between_reads d t \<longleftrightarrow>
     (\<exists>n<length t. is_sleep_of d (t ! n) \<and> (\<exists>ev \<in> set (take n t). is_read ev) \<and>
                    (\<exists>ev \<in> set (drop (Suc n) t). is_read ev))"
  by (auto simp: delay_between_reads_def list_ex_iff)

lemma no_delay_after_sleep:
  assumes "\<forall>ev \<in> set (dropWhile (\<lambda>ev. \<not> is_sleep_of d ev) t). \<not> is_read ev"
  shows "\<not> delay_between_reads d t"
proof
  let ?pre = "takeWhile (\<lambda>ev. \<not> is_sleep_of d ev) t"
  let ?post = "dropWhile (\<lambda>ev. \<not> is_sleep_of d ev) t"
  have t: "t = ?pre @ ?post" by simp
  assume "delay_between_reads d t"
  then obtain n where n: "n < length t" "is_sleep_of d (t ! n)"
    and r: "\<exists>ev \<in> set (drop (Suc n) t). is_read ev"
    unfolding delay_between_reads_iff by blast
  have "\<not> n < length ?pre"
  proof
    assume l: "n < length ?pre"
    then have "t ! n = ?pre ! n" by (simp add: takeWhile_nth)
    with l have "t ! n \<in> set ?pre" by (metis nth_mem)
    then have "\<not> is_sleep_of d (t ! n)" by (auto dest: set_takeWhileD)
    with n(2) show False by blast
  qed
  then have l: "length ?pre \<le> Suc n" by simp
  have "drop (Suc n) t = drop (Suc n) (?pre @ ?post)"
    by simp
  also have "\<dots> = drop (Suc n) ?pre @ drop (Suc n - length ?pre) ?post"
    by (rule drop_append)
  also have "drop (Suc n) ?pre = []"
    using l by simp
  finally have "drop (Suc n) t = drop (Suc n - length ?pre) ?post"
    by simp
  with r have "\<exists>ev \<in> set ?post. is_read ev"
    by (auto dest: in_set_dropD)
  with assms show False by blast
qed

text \<open>
  C1, as the code has it. Set-up is given by the answers of the bus. It opens the bus and
  runs three read cycles back to back: the constructor's, the throwaway one and the real
  one. At the first fault it ends then and there, without the reads that were left and
  without the wait: with \<^verbatim>\<open>None\<close> and an error in the log when a caught exception
  comes from opening the bus or from the constructor's cycle, and by raising otherwise. Only
  when all six reads answered does it wait, for 500 ms, and nothing is read after the wait.
  Success is then judged on the voltage that the third cycle cached before the wait: the
  word zero from the voltage register gives \<^verbatim>\<open>None\<close> and an error in the log, any
  other word the handler. So in no run of set-up does a wait lie between two reads.
\<close>

theorem setup_waits_after_reading:
  "(let b = CONF_I2C_BUS conf; a = CONF_I2C_ADDRESS conf;
        r2 = ReadWordData b a 2; r4 = ReadWordData b a 4;
        t0 = t @ [SMBusOpen b];
        caught = (\<lambda>e tr. if e = RuntimeError \<or> e = IOError
                           then (Inr None, tr @ [LogError ''X720 sensor not detected at 0x%02x''])
                           else (Inl e, tr))
    in setup_x720 env conf t =
     (case SMBus env t b of
        Some e \<Rightarrow> caught e t0
      | None \<Rightarrow>
     (case read_word_data env t0 b a 2 of
        Inl e \<Rightarrow> caught e (t0 @ [r2])
      | Inr w1 \<Rightarrow>
     (case read_word_data env (t0 @ [r2]) b a 4 of
        Inl e \<Rightarrow> caught e (t0 @ [r2, r4])
      | Inr w2 \<Rightarrow>
     (case read_word_data env (t0 @ [r2, r4]) b a 2 of
        Inl e \<Rightarrow> (Inl e, t0 @ [r2, r4, r2])
      | Inr w3 \<Rightarrow>
     (case read_word_data env (t0 @ [r2, r4, r2]) b a 4 of
        Inl e \<Rightarrow> (Inl e, t0 @ [r2, r4, r2, r4])
      | Inr w4 \<Rightarrow>
     (case read_word_data env (t0 @ [r2, r4, r2, r4]) b a 2 of
        Inl e \<Rightarrow> (Inl e, t0 @ [r2, r4, r2, r4, r2])
      | Inr w5 \<Rightarrow>
     (case read_word_data env (t0 @ [r2, r4, r2, r4, r2]) b a 4 of
        Inl e \<Rightarrow> (Inl e, t0 @ [r2, r4, r2, r4, r2, r4])
      | Inr w6 \<Rightarrow>
          if w5 = 0
          then (Inr None,
                t0 @ [r2, r4, r2, r4, r2, r4, Sleep (1 / 2),
                      LogError ''X720 sensor failed to Initialize''])
          else (Inr (Some \<lparr>sensor_data = \<lparr>voltage = PyFloat (voltage_of w5),
                                            capacity = PyFloat (capacity_of w6)\<rparr>,
                           sensor = \<lparr>data = \<lparr>status = PyNone,
                                             voltage = PyFloat (voltage_of w5),
                                             capacity = PyFloat (capacity_of w6)\<rparr>,
                                     i2c_addr = a, i2c = b\<rparr>\<rparr>),
                t0 @ [r2, r4, r2, r4, r2, r4, Sleep (1 / 2)]))))))))) \<and>
   \<not> delay_between_reads d (drop (length t) (snd (setup_x720 env conf t)))"
proof -
  note p = setup_x720_paths [OF refl refl refl refl refl, of env conf t]
  have "\<not> delay_between_reads d (drop (length t) (snd (setup_x720 env conf t)))"
    by (rule no_delay_after_sleep)
       (simp add: p not_detected_def split: option.splits sum.splits)
  then show ?thesis
    by (simp add: Let_def p not_detected_def voltage_of_eq_0_iff
          split: option.splits sum.splits)
qed

theorem setup_waits_after_reading_witness:
  "setup_x720 (steady_bus 0x800C 0x0032) default_config [] =
     (Inr (Some \<lparr>sensor_data = \<lparr>voltage = PyFloat (voltage_of 0x800C),
                                 capacity = PyFloat (capacity_of 0x0032)\<rparr>,
                 sensor = \<lparr>data = \<lparr>status = PyNone, voltage = PyFloat (voltage_of 0x800C),
                                   capacity = PyFloat (capacity_of 0x0032)\<rparr>,
                           i2c_addr = 54, i2c = 1\<rparr>\<rparr>),
      [SMBusOpen 1, ReadWordData 1 54 2, ReadWordData 1 54 4, ReadWordData 1 54 2,
       ReadWordData 1 54 4, ReadWordData 1 54 2, ReadWordData 1 54 4, Sleep (1 / 2)]) \<and>
   setup_x720 (failing_bus 6 0x800C 0x0032) default_config [] =
     (Inl IOError,
      [SMBusOpen 1, ReadWordData 1 54 2, ReadWordData 1 54 4, ReadWordData 1 54 2,
       ReadWordData 1 54 4, ReadWordData 1 54 2, ReadWordData 1 54 4]) \<and>
   setup_x720 (failing_bus 2 0x800C 0x0032) default_config [] =
     (Inr None,
      [SMBusOpen 1, ReadWordData 1 54 2, ReadWordData 1 54 4,
       LogError ''X720 sensor not detected at 0x%02x''])"
proof -
  have c: "CONF_I2C_BUS default_config = 1" "CONF_I2C_ADDRESS default_config = 54"
    by (simp_all add: default_config_def DEFAULT_I2C_ADDRESS_def DEFAULT_I2C_BUS_def)
  have z: "(0x800C :: 16 word) \<noteq> 0"
    by simp
  have 1: "setup_x720 (steady_bus 0x800C 0x0032) default_config [] =
     (Inr (Some \<lparr>sensor_data = \<lparr>voltage = PyFloat (voltage_of 0x800C),
                                 capacity = PyFloat (capacity_of 0x0032)\<rparr>,
                 sensor = \<lparr>data = \<lparr>status = PyNone, voltage = PyFloat (voltage_of 0x800C),
                                   capacity = PyFloat (capacity_of 0x0032)\<rparr>,
                           i2c_addr = 54, i2c = 1\<rparr>\<rparr>),
      [SMBusOpen 1, ReadWordData 1 54 2, ReadWordData 1 54 4, ReadWordData 1 54 2,
       ReadWordData 1 54 4, ReadWordData 1 54 2, ReadWordData 1 54 4, Sleep (1 / 2)])"
    using setup_waits_after_reading
      [where env = "steady_bus 0x800C 0x0032" and conf = default_config and t = "[]"]
    by (simp add: Let_def c steady_bus_def)
  have 2: "setup_x720 (failing_bus 6 0x800C 0x0032) default_config [] =
     (Inl IOError,
      [SMBusOpen 1, ReadWordData 1 54 2, ReadWordData 1 54 4, ReadWordData 1 54 2,
       ReadWordData 1 54 4, ReadWordData 1 54 2, ReadWordData 1 54 4])"
    using setup_waits_after_reading
      [where env = "failing_bus 6 0x800C 0x0032" and conf = default_config and t = "[]"]
    by (simp add: Let_def c failing_bus_def)
  have 3: "setup_x720 (failing_bus 2 0x800C 0x0032) default_config [] =
     (Inr None,
      [SMBusOpen 1, ReadWordData 1 54 2, ReadWordData 1 54 4,
       LogError ''X720 sensor not detected at 0x%02x''])"
    using setup_waits_after_reading
      [where env = "failing_bus 2 0x800C 0x0032" and conf = default_config and t = "[]"]
    by (simp add: Let_def c failing_bus_def)
  from 1 2 3 show ?thesis
    by blast
qed

text \<open>
  C1, as the claim has it, fails: on a bus that answers every read, set-up reads six words
  and only then sleeps, so no wait lies between two reads; and on a bus that faults at the
  first read, set-up ends after that one read, without a second one and without a wait.
\<close>

theorem setup_no_delay_between_reads:
  "snd (setup_x720 (steady_bus 0x800C 0x0032) default_config []) =
     [SMBusOpen 1, ReadWordData 1 54 2, ReadWordData 1 54 4, ReadWordData 1 54 2,
      ReadWordData 1 54 4, ReadWordData 1 54 2, ReadWordData 1 54 4, Sleep (1 / 2)] \<and>
   \<not> delay_between_reads (1 / 2) (snd (setup_x720 (steady_bus 0x800C 0x0032) default_config [])) \<and>
   setup_x720 (failing_bus 1 0x800C 0x0032) default_config [] =
     (Inr None, [SMBusOpen 1, ReadWordData 1 54 2,
                 LogError ''X720 sensor not detected at 0x%02x''])"
proof -
  have "setup_x720 (failing_bus 1 0x800C 0x0032) default_config [] =
     (Inr None, [SMBusOpen 1, ReadWordData 1 54 2,
                 LogError ''X720 sensor not detected at 0x%02x''])"
    by (simp add: setup_x720_paths [OF refl refl refl refl refl] failing_bus_def
          default_config_def DEFAULT_I2C_ADDRESS_def DEFAULT_I2C_BUS_def not_detected_def)
  moreover have "\<not> delay_between_reads (1 / 2)
     [SMBusOpen 1, ReadWordData 1 54 2, ReadWordData 1 54 4, ReadWordData 1 54 2,
      ReadWordData 1 54 4, ReadWordData 1 54 2, ReadWordData 1 54 4, Sleep (1 / 2)]"
    by (simp add: delay_between_reads_def upt_rec)
  ultimately show ?thesis
    by (simp add: steady_setup)
qed

text \<open>
  C3, as the code has it. The outcome of every operation is given by the answers of the
  bus. Set-up returns \<^verbatim>\<open>None\<close> when opening the bus or a read of the constructor's
  cycle raises \<^verbatim>\<open>RuntimeError\<close> or \<^verbatim>\<open>IOError\<close>, and when the voltage word of the
  third cycle is zero; it raises any other exception of those, and every exception of the
  four reads of the handler's constructor, which runs after the \<^verbatim>\<open>try\<close>. The
  constructor of the device object raises what opening bus 1 or either read raises. A
  refresh raises what the first faulting read raises, in the throwaway cycle and in the
  real one.
\<close>

theorem setup_failure_paths:
  "(let b = CONF_I2C_BUS conf; a = CONF_I2C_ADDRESS conf;
        r2 = ReadWordData b a 2; r4 = ReadWordData b a 4;
        t0 = t @ [SMBusOpen b];
        caught = (\<lambda>e. if e = RuntimeError \<or> e = IOError then Inr None else Inl e)
    in fst (setup_x720 env conf t) =
     (case SMBus env t b of
        Some e \<Rightarrow> caught e
      | None \<Rightarrow>
     (case read_word_data env t0 b a 2 of
        Inl e \<Rightarrow> caught e
      | Inr w1 \<Rightarrow>
     (case read_word_data env (t0 @ [r2]) b a 4 of
        Inl e \<Rightarrow> caught e
      | Inr w2 \<Rightarrow>
     (case read_word_data env (t0 @ [r2, r4]) b a 2 of
        Inl e \<Rightarrow> Inl e
      | Inr w3 \<Rightarrow>
     (case read_word_data env (t0 @ [r2, r4, r2]) b a 4 of
        Inl e \<Rightarrow> Inl e
      | Inr w4 \<Rightarrow>
     (case read_word_data env (t0 @ [r2, r4, r2, r4]) b a 2 of
        Inl e \<Rightarrow> Inl e
      | Inr w5 \<Rightarrow>
     (case read_word_data env (t0 @ [r2, r4, r2, r4, r2]) b a 4 of
        Inl e \<Rightarrow> Inl e
      | Inr w6 \<Rightarrow>
          if w5 = 0 then Inr None
          else Inr (Some \<lparr>sensor_data = \<lparr>voltage = PyFloat (voltage_of w5),
                                           capacity = PyFloat (capacity_of w6)\<rparr>,
                          sensor = \<lparr>data = \<lparr>status = PyNone,
                                            voltage = PyFloat (voltage_of w5),
                                            capacity = PyFloat (capacity_of w6)\<rparr>,
                                    i2c_addr = a, i2c = b\<rparr>\<rparr>))))))))) \<and>
   fst (X720_init env addr (Some bus) t) =
     (case read_word_data env t bus addr 2 of
        Inl e \<Rightarrow> Inl e
      | Inr w2 \<Rightarrow>
          (case read_word_data env (t @ [ReadWordData bus addr 2]) bus addr 4 of
             Inl e \<Rightarrow> Inl e
           | Inr w4 \<Rightarrow>
               Inr \<lparr>data = \<lparr>status = PyNone, voltage = PyFloat (voltage_of w2),
                              capacity = PyFloat (capacity_of w4)\<rparr>,
                    i2c_addr = addr, i2c = bus\<rparr>)) \<and>
   fst (X720_init env addr None t) =
     (case SMBus env t 1 of
        Some e \<Rightarrow> Inl e
      | None \<Rightarrow>
     (case read_word_data env (t @ [SMBusOpen 1]) 1 addr 2 of
        Inl e \<Rightarrow> Inl e
      | Inr w2 \<Rightarrow>
          (case read_word_data env (t @ [SMBusOpen 1, ReadWordData 1 addr 2]) 1 addr 4 of
             Inl e \<Rightarrow> Inl e
           | Inr w4 \<Rightarrow>
               Inr \<lparr>data = \<lparr>status = PyNone, voltage = PyFloat (voltage_of w2),
                              capacity = PyFloat (capacity_of w4)\<rparr>,
                    i2c_addr = addr, i2c = 1\<rparr>))) \<and>
   (let b = i2c (sensor h); a = i2c_addr (sensor h);
        r2 = ReadWordData b a 2; r4 = ReadWordData b a 4
    in fst (update env False h t) =
         (case read_word_data env t b a 2 of
            Inl e \<Rightarrow> Inl e
          | Inr w2 \<Rightarrow>
         (case read_word_data env (t @ [r2]) b a 4 of
            Inl e \<Rightarrow> Inl e
          | Inr w4 \<Rightarrow> Inr ())) \<and>
       fst (update env True h t) =
         (case read_word_data env t b a 2 of
            Inl e \<Rightarrow> Inl e
          | Inr w1 \<Rightarrow>
         (case read_word_data env (t @ [r2]) b a 4 of
            Inl e \<Rightarrow> Inl e
          | Inr w2 \<Rightarrow>
         (case read_word_data env (t @ [r2, r4]) b a 2 of
            Inl e \<Rightarrow> Inl e
          | Inr w3 \<Rightarrow>
         (case read_word_data env (t @ [r2, r4, r2]) b a 4 of
            Inl e \<Rightarrow> Inl e
          | Inr w4 \<Rightarrow> Inr ())))))"
proof -
  have 1: "fst (X720_init env addr (Some bus) t) =
     (case read_word_data env t bus addr 2 of
        Inl e \<Rightarrow> Inl e
      | Inr w2 \<Rightarrow>
          (case read_word_data env (t @ [ReadWordData bus addr 2]) bus addr 4 of
             Inl e \<Rightarrow> Inl e
           | Inr w4 \<Rightarrow>
               Inr \<lparr>data = \<lparr>status = PyNone, voltage = PyFloat (voltage_of w2),
                              capacity = PyFloat (capacity_of w4)\<rparr>,
                    i2c_addr = addr, i2c = bus\<rparr>))"
    by (simp add: X720_init_Some split: sum.splits)
  have 2: "fst (X720_init env addr None t) =
     (case SMBus env t 1 of
        Some e \<Rightarrow> Inl e
      | None \<Rightarrow>
     (case read_word_data env (t @ [SMBusOpen 1]) 1 addr 2 of
        Inl e \<Rightarrow> Inl e
      | Inr w2 \<Rightarrow>
          (case read_word_data env (t @ [SMBusOpen 1, ReadWordData 1 addr 2]) 1 addr 4 of
             Inl e \<Rightarrow> Inl e
           | Inr w4 \<Rightarrow>
               Inr \<lparr>data = \<lparr>status = PyNone, voltage = PyFloat (voltage_of w2),
                              capacity = PyFloat (capacity_of w4)\<rparr>,
                    i2c_addr = addr, i2c = 1\<rparr>)))"
    by (simp add: X720_init_def SMBus_open_def get_sensor_data_def FieldData_init_def Let_def
          split: option.splits sum.splits)
  show ?thesis
    unfolding Let_def
    apply (intro conjI)
    subgoal
      by (simp add: setup_x720_paths [OF refl refl refl refl refl] not_detected_def
            voltage_of_eq_0_iff split: option.splits sum.splits)
    subgoal by (rule 1)
    subgoal by (rule 2)
    subgoal
      by (simp add: update_False_reads [OF refl refl refl refl refl refl] split: sum.splits)
    subgoal
      by (simp add: update_True_reads [OF refl refl refl refl refl refl] split: sum.splits)
    done
qed

theorem setup_failure_paths_witness:
  "fst (setup_x720 (failing_bus 3 0x800C 0x0032) default_config []) = Inl IOError \<and>
   fst (setup_x720 (failing_bus 6 0x800C 0x0032) default_config []) = Inl IOError \<and>
   fst (setup_x720 (failing_bus 1 0x800C 0x0032) default_config []) = Inr None \<and>
   fst (setup_x720 (steady_bus 0 0x0032) default_config []) = Inr None \<and>
   fst (X720_init (failing_bus 1 0x800C 0x0032) 54 (Some 1) [SMBusOpen 1]) = Inl IOError \<and>
   fst (update (failing_bus 0 0x800C 0x0032) False (ready_handler 0x0019 0x0032) []) =
     Inl IOError \<and>
   fst (update (failing_bus 1 0x800C 0x0032) False (ready_handler 0x0019 0x0032) []) =
     Inl IOError \<and>
   fst (update (steady_bus 0x800C 0x0032) False (ready_handler 0x0019 0x0032) []) = Inr ()"
proof -
  let ?h = "ready_handler 0x0019 0x0032"
  have c: "CONF_I2C_BUS default_config = 1" "CONF_I2C_ADDRESS default_config = 54"
    by (simp_all add: default_config_def DEFAULT_I2C_ADDRESS_def DEFAULT_I2C_BUS_def)
  have h: "i2c (sensor ?h) = 1" "i2c_addr (sensor ?h) = 54"
    by (simp_all add: ready_handler_def DEFAULT_I2C_ADDRESS_def DEFAULT_I2C_BUS_def)
  have 1: "fst (setup_x720 (failing_bus 3 0x800C 0x0032) default_config []) = Inl IOError"
    using setup_failure_paths
      [where env = "failing_bus 3 0x800C 0x0032" and conf = default_config and t = "[]"]
    by (simp add: Let_def c failing_bus_def)
  have 2: "fst (setup_x720 (failing_bus 6 0x800C 0x0032) default_config []) = Inl IOError"
    using setup_failure_paths
      [where env = "failing_bus 6 0x800C 0x0032" and conf = default_config and t = "[]"]
    by (simp add: Let_def c failing_bus_def)
  have 3: "fst (setup_x720 (failing_bus 1 0x800C 0x0032) default_config []) = Inr None"
    using setup_failure_paths
      [where env = "failing_bus 1 0x800C 0x0032" and conf = default_config and t = "[]"]
    by (simp add: Let_def c failing_bus_def)
  have 4: "fst (setup_x720 (steady_bus 0 0x0032) default_config []) = Inr None"
    using setup_failure_paths
      [where env = "steady_bus 0 0x0032" and conf = default_config and t = "[]"]
    by (simp add: Let_def c steady_bus_def)
  have 5: "fst (X720_init (failing_bus 1 0x800C 0x0032) 54 (Some 1) [SMBusOpen 1]) = Inl IOError"
    using setup_failure_paths
      [where env = "failing_bus 1 0x800C 0x0032" and addr = 54 and bus = 1
         and t = "[SMBusOpen 1]"]
    by (simp add: failing_bus_def)
  have 6: "fst (update (failing_bus 0 0x800C 0x0032) False ?h []) = Inl IOError"
    using setup_failure_paths
      [where env = "failing_bus 0 0x800C 0x0032" and h = ?h and t = "[]"]
    by (simp add: Let_def h failing_bus_def)
  have 7: "fst (update (failing_bus 1 0x800C 0x0032) False ?h []) = Inl IOError"
    using setup_failure_paths
      [where env = "failing_bus 1 0x800C 0x0032" and h = ?h and t = "[]"]
    by (simp add: Let_def h failing_bus_def)
  have 8: "fst (update (steady_bus 0x800C 0x0032) False ?h []) = Inr ()"
    using setup_failure_paths
      [where env = "steady_bus 0x800C 0x0032" and h = ?h and t = "[]"]
    by (simp add: Let_def h steady_bus_def)
  from 1 2 3 4 5 6 7 8 show ?thesis
    by blast
qed

text \<open>
  C3, as the claim has it, fails: exceptions do reach the caller. When the bus faults in
  the first read of the handler's constructor, set-up raises \<^verbatim>\<open>IOError\<close>; when it
  faults during a refresh, \<^verbatim>\<open>update()\<close> raises it; and the constructor of the device
  object raises it as well.
\<close>

theorem exceptions_escape:
  "setup_x720 (failing_bus 3 0x800C 0x0032) default_config [] =
     (Inl IOError, [SMBusOpen 1, ReadWordData 1 54 2, ReadWordData 1 54 4,
                    ReadWordData 1 54 2]) \<and>
   fst (update (failing_bus 0 0x800C 0x0032) False (ready_handler 0x0019 0x0032) []) =
     Inl IOError \<and>
   fst (X720_init (failing_bus 0 0x800C 0x0032) 54 (Some 1) []) = Inl IOError"
  by (simp add: setup_x720_paths [OF refl refl refl refl refl] failing_bus_def
        default_config_def DEFAULT_I2C_ADDRESS_def DEFAULT_I2C_BUS_def not_detected_def
        X720_init_Some update_False get_sensor_data_def ready_handler_def)

text \<open>
  C7, as the code has it: when the bus opened, both constructors returned, and the voltage
  in the handler's cache is falsy, set-up sleeps, logs the failure and returns \<^verbatim>\<open>None\<close>
  in place of the handler. The cache of the handler it drops is not empty: a falsy voltage
  is the float 0.0 there, never \<^verbatim>\<open>None\<close>, read as the word zero in the third read
  cycle, and the capacity is the conversion of the word that the last read of that cycle
  answered. From the side of the bus: when the bus opens, all six reads answer and the
  voltage word of the third cycle is zero, set-up returns \<^verbatim>\<open>None\<close> after the wait and
  the log, and the handler it built holds 0.0 and the capacity of the sixth word.
\<close>

theorem setup_zero_voltage:
  "(let b = CONF_I2C_BUS conf; a = CONF_I2C_ADDRESS conf;
        r2 = ReadWordData b a 2; r4 = ReadWordData b a 4;
        t0 = t @ [SMBusOpen b]
    in (SMBus env t b = None \<and>
        X720_init env a (Some b) t0 = (Inr s, t2) \<and>
        X720Handler_init env s t2 = (Inr h, t3) \<and>
        \<not> truthy (SensorData.voltage (sensor_data h))
        \<longrightarrow>
        setup_x720 env conf t =
          (Inr None, t3 @ [Sleep (1 / 2), LogError ''X720 sensor failed to Initialize'']) \<and>
        t2 = t0 @ [r2, r4] \<and>
        t3 = t0 @ [r2, r4, r2, r4, r2, r4] \<and>
        read_word_data env (t0 @ [r2, r4, r2, r4]) b a 2 = Inr 0 \<and>
        (\<exists>w6. read_word_data env (t0 @ [r2, r4, r2, r4, r2]) b a 4 = Inr w6 \<and>
              sensor_data h = \<lparr>voltage = PyFloat 0, capacity = PyFloat (capacity_of w6)\<rparr>) \<and>
        SensorData.voltage (sensor_data h) = PyFloat 0 \<and>
        is_float (SensorData.capacity (sensor_data h)) \<and>
        \<not> is_empty (sensor_data h)) \<and>
       (SMBus env t b = None \<and>
        read_word_data env t0 b a 2 = Inr w1 \<and>
        read_word_data env (t0 @ [r2]) b a 4 = Inr w2 \<and>
        read_word_data env (t0 @ [r2, r4]) b a 2 = Inr w3 \<and>
        read_word_data env (t0 @ [r2, r4, r2]) b a 4 = Inr w4 \<and>
        read_word_data env (t0 @ [r2, r4, r2, r4]) b a 2 = Inr 0 \<and>
        read_word_data env (t0 @ [r2, r4, r2, r4, r2]) b a 4 = Inr w6
        \<longrightarrow>
        setup_x720 env conf t =
          (Inr None,
           t0 @ [r2, r4, r2, r4, r2, r4, Sleep (1 / 2),
                 LogError ''X720 sensor failed to Initialize'']) \<and>
        X720Handler_init env
          \<lparr>data = \<lparr>status = PyNone, voltage = PyFloat (voltage_of w1),
                     capacity = PyFloat (capacity_of w2)\<rparr>,
           i2c_addr = a, i2c = b\<rparr>
          (t0 @ [r2, r4]) =
          (Inr \<lparr>sensor_data = \<lparr>voltage = PyFloat 0, capacity = PyFloat (capacity_of w6)\<rparr>,
                sensor = \<lparr>data = \<lparr>status = PyNone, voltage = PyFloat 0,
                                  capacity = PyFloat (capacity_of w6)\<rparr>,
                          i2c_addr = a, i2c = b\<rparr>\<rparr>,
           t0 @ [r2, r4, r2, r4, r2, r4])))"
proof -
  define b where "b = CONF_I2C_BUS conf"
  define a where "a = CONF_I2C_ADDRESS conf"
  define r2 where "r2 = ReadWordData b a 2"
  define r4 where "r4 = ReadWordData b a 4"
  define t0 where "t0 = t @ [SMBusOpen b]"
  have z: "voltage_of 0 = 0"
    by (simp add: voltage_of_eq_0_iff)
  have A: "setup_x720 env conf t =
          (Inr None, t3 @ [Sleep (1 / 2), LogError ''X720 sensor failed to Initialize'']) \<and>
        t2 = t0 @ [r2, r4] \<and>
        t3 = t0 @ [r2, r4, r2, r4, r2, r4] \<and>
        read_word_data env (t0 @ [r2, r4, r2, r4]) b a 2 = Inr 0 \<and>
        (\<exists>w6. read_word_data env (t0 @ [r2, r4, r2, r4, r2]) b a 4 = Inr w6 \<and>
              sensor_data h = \<lparr>voltage = PyFloat 0, capacity = PyFloat (capacity_of w6)\<rparr>) \<and>
        SensorData.voltage (sensor_data h) = PyFloat 0 \<and>
        is_float (SensorData.capacity (sensor_data h)) \<and>
        \<not> is_empty (sensor_data h)"
    if o: "SMBus env t b = None"
      and x: "X720_init env a (Some b) t0 = (Inr s, t2)"
      and hi: "X720Handler_init env s t2 = (Inr h, t3)"
      and v: "\<not> truthy (SensorData.voltage (sensor_data h))"
  proof -
    have su: "setup_x720 env conf t =
          (Inr None, t3 @ [Sleep (1 / 2), LogError ''X720 sensor failed to Initialize''])"
      using o x hi v
      by (simp add: setup_x720_def SMBus_open_def Let_def b_def a_def t0_def)
    from x have s: "i2c s = b" "i2c_addr s = a" and t2: "t2 = t0 @ [r2, r4]"
      by (auto simp: X720_init_Some r2_def r4_def split: sum.splits)
    from hi obtain w5 w6 where
      r5: "read_word_data env (t2 @ [r2, r4]) b a 2 = Inr w5"
      and r6: "read_word_data env (t2 @ [r2, r4, r2]) b a 4 = Inr w6"
      and sd: "sensor_data h = \<lparr>voltage = PyFloat (voltage_of w5),
                                capacity = PyFloat (capacity_of w6)\<rparr>"
      and t3: "t3 = t2 @ [r2, r4, r2, r4]"
      unfolding X720Handler_init_reads [OF s r2_def r4_def]
      by (auto split: sum.splits)
    from v sd have "w5 = 0"
      by (simp add: voltage_of_eq_0_iff)
    with su t2 t3 r5 r6 sd z show ?thesis
      by (simp add: is_empty_def)
  qed
  have B: "setup_x720 env conf t =
          (Inr None,
           t0 @ [r2, r4, r2, r4, r2, r4, Sleep (1 / 2),
                 LogError ''X720 sensor failed to Initialize'']) \<and>
        X720Handler_init env
          \<lparr>data = \<lparr>status = PyNone, voltage = PyFloat (voltage_of w1),
                     capacity = PyFloat (capacity_of w2)\<rparr>,
           i2c_addr = a, i2c = b\<rparr>
          (t0 @ [r2, r4]) =
          (Inr \<lparr>sensor_data = \<lparr>voltage = PyFloat 0, capacity = PyFloat (capacity_of w6)\<rparr>,
                sensor = \<lparr>data = \<lparr>status = PyNone, voltage = PyFloat 0,
                                  capacity = PyFloat (capacity_of w6)\<rparr>,
                          i2c_addr = a, i2c = b\<rparr>\<rparr>,
           t0 @ [r2, r4, r2, r4, r2, r4])"
    if "SMBus env t b = None"
      "read_word_data env t0 b a 2 = Inr w1"
      "read_word_data env (t0 @ [r2]) b a 4 = Inr w2"
      "read_word_data env (t0 @ [r2, r4]) b a 2 = Inr w3"
      "read_word_data env (t0 @ [r2, r4, r2]) b a 4 = Inr w4"
      "read_word_data env (t0 @ [r2, r4, r2, r4]) b a 2 = Inr 0"
      "read_word_data env (t0 @ [r2, r4, r2, r4, r2]) b a 4 = Inr w6"
    using that
    by (simp add: setup_x720_paths [OF b_def a_def r2_def r4_def t0_def] z
          X720Handler_init_reads [where b = b and a = a, OF _ _ r2_def r4_def])
  show ?thesis
    unfolding Let_def b_def [symmetric] a_def [symmetric] r2_def [symmetric]
      r4_def [symmetric] t0_def [symmetric]
    using A B by blast
qed

lemma zero_constructor:
  "X720_init (steady_bus 0 0x0032) 54 (Some 1) [SMBusOpen 1] =
     (Inr \<lparr>data = \<lparr>status = PyNone, voltage = PyFloat 0, capacity = PyFloat 50\<rparr>,
           i2c_addr = 54, i2c = 1\<rparr>,
      [SMBusOpen 1, ReadWordData 1 54 2, ReadWordData 1 54 4])"
  by (simp add: X720_init_Some steady_bus_def voltage_examples)

lemma zero_handler:
  "X720Handler_init (steady_bus 0 0x0032)
     \<lparr>data = \<lparr>status = PyNone, voltage = PyFloat 0, capacity = PyFloat 50\<rparr>,
      i2c_addr = 54, i2c = 1\<rparr>
     [SMBusOpen 1, ReadWordData 1 54 2, ReadWordData 1 54 4] =
     (Inr \<lparr>sensor_data = \<lparr>voltage = PyFloat 0, capacity = PyFloat 50\<rparr>,
           sensor = \<lparr>data = \<lparr>status = PyNone, voltage = PyFloat 0, capacity = PyFloat 50\<rparr>,
                     i2c_addr = 54, i2c = 1\<rparr>\<rparr>,
      [SMBusOpen 1, ReadWordData 1 54 2, ReadWordData 1 54 4, ReadWordData 1 54 2,
       ReadWordData 1 54 4, ReadWordData 1 54 2, ReadWordData 1 54 4])"
  by (simp add: X720Handler_init_reads [OF refl refl refl refl] steady_bus_def voltage_examples)

theorem setup_zero_voltage_witness:
  "SMBus (steady_bus 0 0x0032) [] 1 = None \<and>
   \<not> truthy (SensorData.voltage \<lparr>voltage = PyFloat 0, capacity = PyFloat 50\<rparr>) \<and>
   setup_x720 (steady_bus 0 0x0032) default_config [] =
     (Inr None,
      [SMBusOpen 1, ReadWordData 1 54 2, ReadWordData 1 54 4, ReadWordData 1 54 2,
       ReadWordData 1 54 4, ReadWordData 1 54 2, ReadWordData 1 54 4] @
      [Sleep (1 / 2), LogError ''X720 sensor failed to Initialize'']) \<and>
   (\<exists>w6. read_word_data (steady_bus 0 0x0032)
            [SMBusOpen 1, ReadWordData 1 54 2, ReadWordData 1 54 4, ReadWordData 1 54 2,
             ReadWordData 1 54 4, ReadWordData 1 54 2] 1 54 4 = Inr w6 \<and>
          \<lparr>voltage = PyFloat 0, capacity = PyFloat 50\<rparr> =
            \<lparr>voltage = PyFloat 0, capacity = PyFloat (capacity_of w6)\<rparr>) \<and>
   read_word_data (steady_bus 0 0x0032)
     [SMBusOpen 1, ReadWordData 1 54 2, ReadWordData 1 54 4, ReadWordData 1 54 2,
      ReadWordData 1 54 4] 1 54 2 = Inr 0 \<and>
   X720Handler_init (steady_bus 0 0x0032)
     \<lparr>data = \<lparr>status = PyNone, voltage = PyFloat (voltage_of 0),
                capacity = PyFloat (capacity_of 0x0032)\<rparr>,
      i2c_addr = 54, i2c = 1\<rparr>
     [SMBusOpen 1, ReadWordData 1 54 2, ReadWordData 1 54 4] =
     (Inr \<lparr>sensor_data = \<lparr>voltage = PyFloat 0, capacity = PyFloat (capacity_of 0x0032)\<rparr>,
           sensor = \<lparr>data = \<lparr>status = PyNone, voltage = PyFloat 0,
                             capacity = PyFloat (capacity_of 0x0032)\<rparr>,
                     i2c_addr = 54, i2c = 1\<rparr>\<rparr>,
      [SMBusOpen 1, ReadWordData 1 54 2, ReadWordData 1 54 4, ReadWordData 1 54 2,
       ReadWordData 1 54 4, ReadWordData 1 54 2, ReadWordData 1 54 4])"
proof -
  let ?h = "\<lparr>sensor_data = \<lparr>voltage = PyFloat 0, capacity = PyFloat 50\<rparr>,
             sensor = \<lparr>data = \<lparr>status = PyNone, voltage = PyFloat 0, capacity = PyFloat 50\<rparr>,
                       i2c_addr = 54, i2c = 1\<rparr>\<rparr>"
  have c: "CONF_I2C_BUS default_config = 1" "CONF_I2C_ADDRESS default_config = 54"
    by (simp_all add: default_config_def DEFAULT_I2C_ADDRESS_def DEFAULT_I2C_BUS_def)
  have o: "SMBus (steady_bus 0 0x0032) [] 1 = None"
    by (simp add: steady_bus_def)
  have v: "\<not> truthy (SensorData.voltage (sensor_data ?h))"
    by simp
  note th = setup_zero_voltage
    [where env = "steady_bus 0 0x0032" and conf = default_config and t = "[]"
       and s = "\<lparr>data = \<lparr>status = PyNone, voltage = PyFloat 0, capacity = PyFloat 50\<rparr>,
                  i2c_addr = 54, i2c = 1\<rparr>"
       and ?t2.0 = "[SMBusOpen 1, ReadWordData 1 54 2, ReadWordData 1 54 4]"
       and h = ?h
       and ?t3.0 = "[SMBusOpen 1, ReadWordData 1 54 2, ReadWordData 1 54 4, ReadWordData 1 54 2,
                     ReadWordData 1 54 4, ReadWordData 1 54 2, ReadWordData 1 54 4]"
       and ?w1.0 = 0 and ?w2.0 = "0x0032" and ?w3.0 = 0 and ?w4.0 = "0x0032"
       and ?w6.0 = "0x0032",
     unfolded Let_def c, simplified append_Nil append_Cons]
  have r: "read_word_data (steady_bus 0 0x0032) tr 1 54 2 = Inr 0"
    "read_word_data (steady_bus 0 0x0032) tr 1 54 4 = Inr 0x0032" for tr
    by (simp_all add: steady_bus_def)
  from th o zero_constructor zero_handler v r show ?thesis
    by (simp add: o voltage_examples)
qed

text \<open>
  C7, as the claim has it, fails in its last part: on a bus whose voltage register answers
  0 and whose capacity register answers the word of 50 percent, set-up returns
  \<^verbatim>\<open>None\<close>, yet the cache of the handler it built holds 0.0 and 50.0, not
  \<^verbatim>\<open>None\<close>.
\<close>

theorem failed_setup_cache_not_empty:
  "fst (setup_x720 (steady_bus 0 0x0032) default_config []) = Inr None \<and>
   X720_init (steady_bus 0 0x0032) (CONF_I2C_ADDRESS default_config)
     (Some (CONF_I2C_BUS default_config)) [SMBusOpen (CONF_I2C_BUS default_config)] =
     (Inr \<lparr>data = \<lparr>status = PyNone, voltage = PyFloat 0, capacity = PyFloat 50\<rparr>,
           i2c_addr = 54, i2c = 1\<rparr>,
      [SMBusOpen 1, ReadWordData 1 54 2, ReadWordData 1 54 4]) \<and>
   fst (X720Handler_init (steady_bus 0 0x0032)
     \<lparr>data = \<lparr>status = PyNone, voltage = PyFloat 0, capacity = PyFloat 50\<rparr>,
      i2c_addr = 54, i2c = 1\<rparr>
     [SMBusOpen 1, ReadWordData 1 54 2, ReadWordData 1 54 4]) =
     Inr \<lparr>sensor_data = \<lparr>voltage = PyFloat 0, capacity = PyFloat 50\<rparr>,
          sensor = \<lparr>data = \<lparr>status = PyNone, voltage = PyFloat 0, capacity = PyFloat 50\<rparr>,
                    i2c_addr = 54, i2c = 1\<rparr>\<rparr> \<and>
   \<not> is_empty \<lparr>voltage = PyFloat 0, capacity = PyFloat 50\<rparr>"
proof -
  have c: "CONF_I2C_BUS default_config = 1" "CONF_I2C_ADDRESS default_config = 54"
    by (simp_all add: default_config_def DEFAULT_I2C_ADDRESS_def DEFAULT_I2C_BUS_def)
  have "fst (setup_x720 (steady_bus 0 0x0032) default_config []) = Inr None"
    by (simp add: setup_x720_paths [OF refl refl refl refl refl] steady_bus_def c voltage_examples)
  then show ?thesis
    by (simp add: c zero_constructor zero_handler is_empty_def)
qed

end
